theory Spec2Isabelle
  imports Main "HOL-Library.Word" "HOL-Library.Sublist"
begin

unbundle bit_operations_syntax

section \<open>Data model of icon.c\<close>

text \<open>
  The unit \<^verbatim>\<open>app/src/icon.c\<close> resolves the path of the icon file, decodes the file with
  FFmpeg into one \<^verbatim>\<open>AVFrame\<close> and wraps the frame's pixels into an \<^verbatim>\<open>SDL_Surface\<close>.
  Everything the unit does is a sequence of calls into FFmpeg, SDL and libc, each of which
  may fail. The embedding keeps the control flow of the C functions and makes two things
  explicit: the outcome of every external call (a field of the record \<open>env\<close>) and the
  effect of every call (an event appended to a trace).
\<close>

subsection \<open>Pixel formats\<close>

text \<open>
  \<^verbatim>\<open>enum AVPixelFormat\<close>: the twelve values that the switch of \<^verbatim>\<open>to_sdl_pixel_format\<close>
  names, and every other value of the enumeration by its number (\<^verbatim>\<open>AV_PIX_FMT_NONE\<close> is
  \<open>AV_PIX_FMT_other (-1)\<close>).
\<close>

datatype AVPixelFormat =
    AV_PIX_FMT_RGB24
  | AV_PIX_FMT_BGR24
  | AV_PIX_FMT_ARGB
  | AV_PIX_FMT_RGBA
  | AV_PIX_FMT_ABGR
  | AV_PIX_FMT_BGRA
  | AV_PIX_FMT_RGB565BE
  | AV_PIX_FMT_RGB555BE
  | AV_PIX_FMT_BGR565BE
  | AV_PIX_FMT_BGR555BE
  | AV_PIX_FMT_RGB444BE
  | AV_PIX_FMT_BGR444BE
  | AV_PIX_FMT_other int

datatype SDL_PixelFormatEnum =
    SDL_PIXELFORMAT_UNKNOWN
  | SDL_PIXELFORMAT_RGB24
  | SDL_PIXELFORMAT_BGR24
  | SDL_PIXELFORMAT_ARGB32
  | SDL_PIXELFORMAT_RGBA32
  | SDL_PIXELFORMAT_ABGR32
  | SDL_PIXELFORMAT_BGRA32
  | SDL_PIXELFORMAT_RGB565
  | SDL_PIXELFORMAT_RGB555
  | SDL_PIXELFORMAT_BGR565
  | SDL_PIXELFORMAT_BGR555
  | SDL_PIXELFORMAT_RGB444
  | SDL_PIXELFORMAT_BGR444

text \<open>\<^verbatim>\<open>AVPixFmtDescriptor\<close>: the two fields the unit reads. \<^verbatim>\<open>flags\<close> is a \<^verbatim>\<open>uint64_t\<close>.\<close>

record AVPixFmtDescriptor =
  name :: string
  flags :: "64 word"

text \<open>The flag bits of \<^verbatim>\<open>libavutil/pixdesc.h\<close>: \<^verbatim>\<open>(1 << 4)\<close> and \<^verbatim>\<open>(1 << 5)\<close>.\<close>

definition AV_PIX_FMT_FLAG_PLANAR :: "64 word" where
  "AV_PIX_FMT_FLAG_PLANAR = push_bit 4 1"

definition AV_PIX_FMT_FLAG_RGB :: "64 word" where
  "AV_PIX_FMT_FLAG_RGB = push_bit 5 1"

subsection \<open>Frames and surfaces\<close>

text \<open>
  \<^verbatim>\<open>AVFrame\<close>: the fields the unit reads. \<open>data0\<close> is the address \<^verbatim>\<open>data[0]\<close> of the first
  plane and \<open>linesize0\<close> is \<^verbatim>\<open>linesize[0]\<close>.
\<close>

record AVFrame =
  format :: AVPixelFormat
  width :: int
  height :: int
  data0 :: nat
  linesize0 :: int

text \<open>
  \<^verbatim>\<open>SDL_Surface\<close>: what \<^verbatim>\<open>SDL_CreateRGBSurfaceWithFormatFrom\<close> stores from its arguments,
  and the \<^verbatim>\<open>userdata\<close> pointer, which the unit points to the frame (\<open>None\<close> is \<^verbatim>\<open>NULL\<close>).
\<close>

record SDL_Surface =
  pixels :: nat
  surface_w :: int
  surface_h :: int
  depth :: int
  pitch :: int
  pixel_format :: SDL_PixelFormatEnum
  userdata :: "AVFrame option"

subsection \<open>Resources, events and traces\<close>

datatype resource =
    FormatContext
  | CodecContext
  | Frame
  | Packet
  | Surface
  | IconPath

text \<open>The external functions the unit calls.\<close>

datatype libcall =
    Getenv
  | Strdup
  | Get_local_file_path
  | Free_libc
  | Avformat_alloc_context
  | Avformat_open_input
  | Avformat_find_stream_info
  | Av_find_best_stream
  | Avcodec_find_decoder
  | Avcodec_alloc_context3
  | Avcodec_parameters_to_context
  | Avcodec_open2
  | Av_frame_alloc
  | Av_packet_alloc
  | Av_read_frame
  | Avcodec_send_packet
  | Avcodec_receive_frame
  | Av_packet_free
  | Av_frame_free
  | Avcodec_close
  | Avcodec_free_context
  | Avformat_close_input
  | Avformat_free_context
  | Av_pix_fmt_desc_get
  | Av_get_bits_per_pixel
  | SDL_CreateRGBSurfaceWithFormatFrom
  | SDL_FreeSurface

text \<open>
  The messages of the \<^verbatim>\<open>LOGE\<close> and \<^verbatim>\<open>LOGD\<close> call sites, one constructor per format
  string (the formatted arguments are left out).
\<close>

datatype message =
    Could_not_allocate_memory
  | Using_SCRCPY_ICON_PATH
  | Using_icon
  | Could_not_get_icon_path
  | Using_icon_portable
  | Could_not_allocate_image_decoder_context
  | Could_not_open_image_codec_path
  | Could_not_find_image_stream_info
  | Could_not_find_best_image_stream
  | Could_not_find_image_decoder
  | Could_not_allocate_codec_context
  | Could_not_fill_codec_context
  | Could_not_open_image_codec
  | Could_not_allocate_frame
  | Could_not_allocate_packet
  | Could_not_read_frame
  | Could_not_send_icon_packet
  | Could_not_receive_icon_frame
  | Could_not_get_icon_format_descriptor
  | Could_not_load_non_RGB_icon
  | Unsupported_icon_pixel_format
  | Could_not_create_icon_surface

datatype event =
    Call libcall
  | Alloc resource
  | Free resource
  | LOGE message
  | LOGD message

type_synonym trace = "event list"

subsection \<open>The environment\<close>

text \<open>
  One field per external call: what the call returns in this run. A pointer-returning
  call has a boolean (does it return a non-\<^verbatim>\<open>NULL\<close> pointer), a status-returning call has
  its \<^verbatim>\<open>int\<close> status. \<open>PORTABLE\<close> and \<open>PREFIX\<close> are the build-time macros of
  \<^verbatim>\<open>config.h\<close>. \<open>get_local_file_path_ret\<close> is what the helper of \<^verbatim>\<open>util/process.h\<close>
  returns for a file name: the path of that file in the directory of the running
  executable, or \<^verbatim>\<open>NULL\<close>. \<open>decoded\<close> is what the decoder writes into the frame when
  \<^verbatim>\<open>avcodec_receive_frame\<close> returns 0.
\<close>

record env =
  PORTABLE :: bool
  PREFIX :: string
  getenv_ret :: "string \<Rightarrow> string option"
  strdup_ok :: bool
  get_local_file_path_ret :: "string \<Rightarrow> string option"
  avformat_alloc_context_ok :: bool
  avformat_open_input_ret :: "string \<Rightarrow> int"
  avformat_find_stream_info_ret :: int
  av_find_best_stream_ret :: int
  avcodec_find_decoder_ok :: bool
  avcodec_alloc_context3_ok :: bool
  avcodec_parameters_to_context_ret :: int
  avcodec_open2_ret :: int
  av_frame_alloc_ok :: bool
  av_packet_alloc_ok :: bool
  av_read_frame_ret :: int
  avcodec_send_packet_ret :: int
  avcodec_receive_frame_ret :: int
  decoded :: AVFrame
  av_pix_fmt_desc_get_ret :: "AVPixelFormat \<Rightarrow> AVPixFmtDescriptor option"
  av_get_bits_per_pixel_ret :: "AVPixFmtDescriptor \<Rightarrow> int"
  SDL_CreateRGBSurfaceWithFormatFrom_ok :: bool

section \<open>The external calls\<close>

text \<open>
  Each call appends its \<open>Call\<close> event and the allocation or release it performs. A pointer
  is an option (\<open>None\<close> is \<^verbatim>\<open>NULL\<close>). The release functions of FFmpeg and SDL accept
  \<^verbatim>\<open>NULL\<close> and then do nothing; those that take the address of the pointer set it to
  \<^verbatim>\<open>NULL\<close>.
\<close>

definition getenv :: "env \<Rightarrow> string \<Rightarrow> trace \<Rightarrow> string option \<times> trace" where
  "getenv E var t = (getenv_ret E var, t @ [Call Getenv])"

definition strdup :: "env \<Rightarrow> string \<Rightarrow> trace \<Rightarrow> string option \<times> trace" where
  "strdup E s t =
     (if strdup_ok E then (Some s, t @ [Call Strdup, Alloc IconPath])
      else (None, t @ [Call Strdup]))"

definition get_local_file_path :: "env \<Rightarrow> string \<Rightarrow> trace \<Rightarrow> string option \<times> trace" where
  "get_local_file_path E file t =
     (case get_local_file_path_ret E file of
        None \<Rightarrow> (None, t @ [Call Get_local_file_path])
      | Some p \<Rightarrow> (Some p, t @ [Call Get_local_file_path, Alloc IconPath]))"

definition free_libc :: "string option \<Rightarrow> trace \<Rightarrow> trace" where
  "free_libc p t =
     (case p of None \<Rightarrow> t @ [Call Free_libc] | Some _ \<Rightarrow> t @ [Call Free_libc, Free IconPath])"

definition avformat_alloc_context :: "env \<Rightarrow> trace \<Rightarrow> resource option \<times> trace" where
  "avformat_alloc_context E t =
     (if avformat_alloc_context_ok E
      then (Some FormatContext, t @ [Call Avformat_alloc_context, Alloc FormatContext])
      else (None, t @ [Call Avformat_alloc_context]))"

text \<open>
  \<^verbatim>\<open>avformat_open_input(&ctx, path, NULL, NULL)\<close>: on failure FFmpeg frees the
  user-supplied context and sets the pointer to \<^verbatim>\<open>NULL\<close>.
\<close>

definition avformat_open_input ::
  "env \<Rightarrow> resource option \<Rightarrow> string \<Rightarrow> trace \<Rightarrow> int \<times> resource option \<times> trace" where
  "avformat_open_input E ctx path t =
     (let ret = avformat_open_input_ret E path in
      if ret < 0
      then (ret, None,
            t @ [Call Avformat_open_input] @ (case ctx of None \<Rightarrow> [] | Some r \<Rightarrow> [Free r]))
      else (ret, ctx, t @ [Call Avformat_open_input]))"

definition avformat_find_stream_info :: "env \<Rightarrow> trace \<Rightarrow> int \<times> trace" where
  "avformat_find_stream_info E t =
     (avformat_find_stream_info_ret E, t @ [Call Avformat_find_stream_info])"

definition av_find_best_stream :: "env \<Rightarrow> trace \<Rightarrow> int \<times> trace" where
  "av_find_best_stream E t = (av_find_best_stream_ret E, t @ [Call Av_find_best_stream])"

definition avcodec_find_decoder :: "env \<Rightarrow> trace \<Rightarrow> bool \<times> trace" where
  "avcodec_find_decoder E t = (avcodec_find_decoder_ok E, t @ [Call Avcodec_find_decoder])"

definition avcodec_alloc_context3 :: "env \<Rightarrow> trace \<Rightarrow> resource option \<times> trace" where
  "avcodec_alloc_context3 E t =
     (if avcodec_alloc_context3_ok E
      then (Some CodecContext, t @ [Call Avcodec_alloc_context3, Alloc CodecContext])
      else (None, t @ [Call Avcodec_alloc_context3]))"

definition avcodec_parameters_to_context :: "env \<Rightarrow> trace \<Rightarrow> int \<times> trace" where
  "avcodec_parameters_to_context E t =
     (avcodec_parameters_to_context_ret E, t @ [Call Avcodec_parameters_to_context])"

definition avcodec_open2 :: "env \<Rightarrow> trace \<Rightarrow> int \<times> trace" where
  "avcodec_open2 E t = (avcodec_open2_ret E, t @ [Call Avcodec_open2])"

text \<open>A frame that \<^verbatim>\<open>av_frame_alloc\<close> returns holds no picture yet.\<close>

definition blank_frame :: AVFrame where
  "blank_frame =
     \<lparr>format = AV_PIX_FMT_other (-1), width = 0, height = 0, data0 = 0, linesize0 = 0\<rparr>"

definition av_frame_alloc :: "env \<Rightarrow> trace \<Rightarrow> AVFrame option \<times> trace" where
  "av_frame_alloc E t =
     (if av_frame_alloc_ok E then (Some blank_frame, t @ [Call Av_frame_alloc, Alloc Frame])
      else (None, t @ [Call Av_frame_alloc]))"

definition av_packet_alloc :: "env \<Rightarrow> trace \<Rightarrow> resource option \<times> trace" where
  "av_packet_alloc E t =
     (if av_packet_alloc_ok E then (Some Packet, t @ [Call Av_packet_alloc, Alloc Packet])
      else (None, t @ [Call Av_packet_alloc]))"

definition av_read_frame :: "env \<Rightarrow> trace \<Rightarrow> int \<times> trace" where
  "av_read_frame E t = (av_read_frame_ret E, t @ [Call Av_read_frame])"

text \<open>
  \<^verbatim>\<open>avcodec_send_packet\<close> returns 0 on success and a negative error code otherwise. The
  status stays an arbitrary \<^verbatim>\<open>int\<close> here; a theorem that needs the contract assumes it.
\<close>

definition avcodec_send_packet :: "env \<Rightarrow> trace \<Rightarrow> int \<times> trace" where
  "avcodec_send_packet E t = (avcodec_send_packet_ret E, t @ [Call Avcodec_send_packet])"

text \<open>\<^verbatim>\<open>avcodec_receive_frame\<close> fills the frame when it returns 0.\<close>

definition avcodec_receive_frame ::
  "env \<Rightarrow> AVFrame option \<Rightarrow> trace \<Rightarrow> int \<times> AVFrame option \<times> trace" where
  "avcodec_receive_frame E frame t =
     (let ret = avcodec_receive_frame_ret E in
      (ret, (if ret = 0 then map_option (\<lambda>_. decoded E) frame else frame),
       t @ [Call Avcodec_receive_frame]))"

definition av_packet_free :: "resource option \<Rightarrow> trace \<Rightarrow> resource option \<times> trace" where
  "av_packet_free packet t =
     (None, t @ [Call Av_packet_free] @ (case packet of None \<Rightarrow> [] | Some r \<Rightarrow> [Free r]))"

definition av_frame_free :: "AVFrame option \<Rightarrow> trace \<Rightarrow> AVFrame option \<times> trace" where
  "av_frame_free frame t =
     (None, t @ [Call Av_frame_free] @ (case frame of None \<Rightarrow> [] | Some _ \<Rightarrow> [Free Frame]))"

text \<open>\<^verbatim>\<open>avcodec_close\<close> closes the codec; the context stays allocated.\<close>

definition avcodec_close :: "resource option \<Rightarrow> trace \<Rightarrow> trace" where
  "avcodec_close codec_ctx t = t @ [Call Avcodec_close]"

definition avcodec_free_context :: "resource option \<Rightarrow> trace \<Rightarrow> resource option \<times> trace" where
  "avcodec_free_context codec_ctx t =
     (None,
      t @ [Call Avcodec_free_context] @ (case codec_ctx of None \<Rightarrow> [] | Some r \<Rightarrow> [Free r]))"

text \<open>\<^verbatim>\<open>avformat_close_input(&ctx)\<close> closes the input, frees the context and sets the
  pointer to \<^verbatim>\<open>NULL\<close>.\<close>

definition avformat_close_input :: "resource option \<Rightarrow> trace \<Rightarrow> resource option \<times> trace" where
  "avformat_close_input ctx t =
     (None, t @ [Call Avformat_close_input] @ (case ctx of None \<Rightarrow> [] | Some r \<Rightarrow> [Free r]))"

definition avformat_free_context :: "resource option \<Rightarrow> trace \<Rightarrow> trace" where
  "avformat_free_context ctx t =
     t @ [Call Avformat_free_context] @ (case ctx of None \<Rightarrow> [] | Some r \<Rightarrow> [Free r])"

definition av_pix_fmt_desc_get ::
  "env \<Rightarrow> AVPixelFormat \<Rightarrow> trace \<Rightarrow> AVPixFmtDescriptor option \<times> trace" where
  "av_pix_fmt_desc_get E fmt t = (av_pix_fmt_desc_get_ret E fmt, t @ [Call Av_pix_fmt_desc_get])"

definition av_get_bits_per_pixel :: "env \<Rightarrow> AVPixFmtDescriptor \<Rightarrow> trace \<Rightarrow> int \<times> trace" where
  "av_get_bits_per_pixel E desc t =
     (av_get_bits_per_pixel_ret E desc, t @ [Call Av_get_bits_per_pixel])"

text \<open>
  \<^verbatim>\<open>SDL_CreateRGBSurfaceWithFormatFrom(pixels, width, height, depth, pitch, format)\<close>:
  a new surface over the given pixels (not copied), with \<^verbatim>\<open>userdata\<close> unset, or \<^verbatim>\<open>NULL\<close>.
\<close>

definition SDL_CreateRGBSurfaceWithFormatFrom_call ::
  "env \<Rightarrow> nat \<Rightarrow> int \<Rightarrow> int \<Rightarrow> int \<Rightarrow> int \<Rightarrow> SDL_PixelFormatEnum \<Rightarrow> trace
     \<Rightarrow> SDL_Surface option \<times> trace" where
  "SDL_CreateRGBSurfaceWithFormatFrom_call E px wd ht bpp ptch fmt t =
     (if SDL_CreateRGBSurfaceWithFormatFrom_ok E
      then (Some \<lparr>pixels = px, surface_w = wd, surface_h = ht, depth = bpp, pitch = ptch,
                  pixel_format = fmt, userdata = None\<rparr>,
            t @ [Call SDL_CreateRGBSurfaceWithFormatFrom, Alloc Surface])
      else (None, t @ [Call SDL_CreateRGBSurfaceWithFormatFrom]))"

definition SDL_FreeSurface_call :: "SDL_Surface \<Rightarrow> trace \<Rightarrow> trace" where
  "SDL_FreeSurface_call icon t = t @ [Call SDL_FreeSurface, Free Surface]"

section \<open>The functions of icon.c\<close>

subsection \<open>get_icon_path\<close>

definition SCRCPY_PORTABLE_ICON_FILENAME :: string where
  "SCRCPY_PORTABLE_ICON_FILENAME = ''icon.png''"

definition SCRCPY_DEFAULT_ICON_PATH :: "env \<Rightarrow> string" where
  "SCRCPY_DEFAULT_ICON_PATH E = PREFIX E @ ''/share/icons/hicolor/256x256/apps/scrcpy.png''"

definition get_icon_path :: "env \<Rightarrow> trace \<Rightarrow> string option \<times> trace" where
  "get_icon_path E t0 =
     (let (icon_path_env, t) = getenv E ''SCRCPY_ICON_PATH'' t0 in
      case icon_path_env of
        Some v \<Rightarrow>
          (let (icon_path, t) = strdup E v t in
           if icon_path = None then (None, t @ [LOGE Could_not_allocate_memory])
           else (icon_path, t @ [LOGD Using_SCRCPY_ICON_PATH]))
      | None \<Rightarrow>
          if \<not> PORTABLE E then
            (let (icon_path, t) = strdup E (SCRCPY_DEFAULT_ICON_PATH E) (t @ [LOGD Using_icon]) in
             if icon_path = None then (None, t @ [LOGE Could_not_allocate_memory])
             else (icon_path, t))
          else
            (let (icon_path, t) = get_local_file_path E SCRCPY_PORTABLE_ICON_FILENAME t in
             if icon_path = None then (None, t @ [LOGE Could_not_get_icon_path])
             else (icon_path, t @ [LOGD Using_icon_portable])))"

subsection \<open>decode_image\<close>

text \<open>The cleanup labels of \<^verbatim>\<open>decode_image\<close>; each falls through to the next.\<close>

definition free_ctx :: "resource option \<Rightarrow> AVFrame option \<Rightarrow> trace \<Rightarrow> AVFrame option \<times> trace" where
  "free_ctx ctx result t = (result, avformat_free_context ctx t)"

definition close_input :: "resource option \<Rightarrow> AVFrame option \<Rightarrow> trace \<Rightarrow> AVFrame option \<times> trace" where
  "close_input ctx result t =
     (let (ctx, t) = avformat_close_input ctx t in free_ctx ctx result t)"

definition free_codec_ctx ::
  "resource option \<Rightarrow> resource option \<Rightarrow> AVFrame option \<Rightarrow> trace \<Rightarrow> AVFrame option \<times> trace" where
  "free_codec_ctx codec_ctx ctx result t =
     (let (codec_ctx, t) = avcodec_free_context codec_ctx t in close_input ctx result t)"

definition close_codec ::
  "resource option \<Rightarrow> resource option \<Rightarrow> AVFrame option \<Rightarrow> trace \<Rightarrow> AVFrame option \<times> trace" where
  "close_codec codec_ctx ctx result t =
     free_codec_ctx codec_ctx ctx result (avcodec_close codec_ctx t)"

definition decode_image :: "env \<Rightarrow> string \<Rightarrow> trace \<Rightarrow> AVFrame option \<times> trace" where
  "decode_image E path t0 =
     (let result = None;
          (ctx, t) = avformat_alloc_context E t0 in
      if ctx = None then (None, t @ [LOGE Could_not_allocate_image_decoder_context])
      else
      let (ret, ctx, t) = avformat_open_input E ctx path t in
      if ret < 0 then free_ctx ctx result (t @ [LOGE Could_not_open_image_codec_path])
      else
      let (ret, t) = avformat_find_stream_info E t in
      if ret < 0 then close_input ctx result (t @ [LOGE Could_not_find_image_stream_info])
      else
      let (stream, t) = av_find_best_stream E t in
      if stream < 0 then close_input ctx result (t @ [LOGE Could_not_find_best_image_stream])
      else
      let (codec, t) = avcodec_find_decoder E t in
      if \<not> codec then close_input ctx result (t @ [LOGE Could_not_find_image_decoder])
      else
      let (codec_ctx, t) = avcodec_alloc_context3 E t in
      if codec_ctx = None
      then close_input ctx result (t @ [LOGE Could_not_allocate_codec_context])
      else
      let (ret, t) = avcodec_parameters_to_context E t in
      if ret < 0
      then free_codec_ctx codec_ctx ctx result (t @ [LOGE Could_not_fill_codec_context])
      else
      let (ret, t) = avcodec_open2 E t in
      if ret < 0
      then free_codec_ctx codec_ctx ctx result (t @ [LOGE Could_not_open_image_codec])
      else
      let (frame, t) = av_frame_alloc E t in
      if frame = None
      then close_codec codec_ctx ctx result (t @ [LOGE Could_not_allocate_frame])
      else
      let (packet, t) = av_packet_alloc E t in
      if packet = None then
        (let t = t @ [LOGE Could_not_allocate_packet];
             (frame, t) = av_frame_free frame t
         in close_codec codec_ctx ctx result t)
      else
      let (ret, t) = av_read_frame E t in
      if ret < 0 then
        (let t = t @ [LOGE Could_not_read_frame];
             (packet, t) = av_packet_free packet t;
             (frame, t) = av_frame_free frame t
         in close_codec codec_ctx ctx result t)
      else
      let (ret, t) = avcodec_send_packet E t in
      if ret < 0 then
        (let t = t @ [LOGE Could_not_send_icon_packet];
             (packet, t) = av_packet_free packet t;
             (frame, t) = av_frame_free frame t
         in close_codec codec_ctx ctx result t)
      else
      let (ret, frame, t) = avcodec_receive_frame E frame t in
      if ret \<noteq> 0 then
        (let t = t @ [LOGE Could_not_receive_icon_frame];
             (packet, t) = av_packet_free packet t;
             (frame, t) = av_frame_free frame t
         in close_codec codec_ctx ctx result t)
      else
      let (packet, t) = av_packet_free packet t;
          result = frame
      in close_codec codec_ctx ctx result t)"

subsection \<open>to_sdl_pixel_format\<close>

fun to_sdl_pixel_format :: "AVPixelFormat \<Rightarrow> SDL_PixelFormatEnum" where
  "to_sdl_pixel_format AV_PIX_FMT_RGB24 = SDL_PIXELFORMAT_RGB24"
| "to_sdl_pixel_format AV_PIX_FMT_BGR24 = SDL_PIXELFORMAT_BGR24"
| "to_sdl_pixel_format AV_PIX_FMT_ARGB = SDL_PIXELFORMAT_ARGB32"
| "to_sdl_pixel_format AV_PIX_FMT_RGBA = SDL_PIXELFORMAT_RGBA32"
| "to_sdl_pixel_format AV_PIX_FMT_ABGR = SDL_PIXELFORMAT_ABGR32"
| "to_sdl_pixel_format AV_PIX_FMT_BGRA = SDL_PIXELFORMAT_BGRA32"
| "to_sdl_pixel_format AV_PIX_FMT_RGB565BE = SDL_PIXELFORMAT_RGB565"
| "to_sdl_pixel_format AV_PIX_FMT_RGB555BE = SDL_PIXELFORMAT_RGB555"
| "to_sdl_pixel_format AV_PIX_FMT_BGR565BE = SDL_PIXELFORMAT_BGR565"
| "to_sdl_pixel_format AV_PIX_FMT_BGR555BE = SDL_PIXELFORMAT_BGR555"
| "to_sdl_pixel_format AV_PIX_FMT_RGB444BE = SDL_PIXELFORMAT_RGB444"
| "to_sdl_pixel_format AV_PIX_FMT_BGR444BE = SDL_PIXELFORMAT_BGR444"
| "to_sdl_pixel_format _ = SDL_PIXELFORMAT_UNKNOWN"

subsection \<open>load_from_path\<close>

text \<open>
  \<^verbatim>\<open>desc->flags & AV_PIX_FMT_FLAG_RGB && !(desc->flags & AV_PIX_FMT_FLAG_PLANAR)\<close>: a C
  integer is true when it is not 0.
\<close>

definition is_packed_rgb :: "AVPixFmtDescriptor \<Rightarrow> bool" where
  "is_packed_rgb desc \<longleftrightarrow>
     flags desc AND AV_PIX_FMT_FLAG_RGB \<noteq> 0 \<and> \<not> (flags desc AND AV_PIX_FMT_FLAG_PLANAR \<noteq> 0)"

text \<open>The label \<^verbatim>\<open>error\<close> of \<^verbatim>\<open>load_from_path\<close>.\<close>

definition error_label :: "AVFrame option \<Rightarrow> trace \<Rightarrow> SDL_Surface option \<times> trace" where
  "error_label frame t = (let (frame, t) = av_frame_free frame t in (None, t))"

definition load_from_path :: "env \<Rightarrow> string \<Rightarrow> trace \<Rightarrow> SDL_Surface option \<times> trace" where
  "load_from_path E path t0 =
     (let (frame, t) = decode_image E path t0 in
      case frame of
        None \<Rightarrow> (None, t)
      | Some f \<Rightarrow>
          let (desc, t) = av_pix_fmt_desc_get E (format f) t in
          (case desc of
             None \<Rightarrow> error_label frame (t @ [LOGE Could_not_get_icon_format_descriptor])
           | Some d \<Rightarrow>
               if \<not> is_packed_rgb d
               then error_label frame (t @ [LOGE Could_not_load_non_RGB_icon])
               else
               let fmt = to_sdl_pixel_format (format f) in
               if fmt = SDL_PIXELFORMAT_UNKNOWN
               then error_label frame (t @ [LOGE Unsupported_icon_pixel_format])
               else
               let (bits_per_pixel, t) = av_get_bits_per_pixel E d t;
                   (surface, t) =
                      SDL_CreateRGBSurfaceWithFormatFrom_call E (data0 f) (width f) (height f)
                        bits_per_pixel (linesize0 f) fmt t
               in
               case surface of
                 None \<Rightarrow> error_label frame (t @ [LOGE Could_not_create_icon_surface])
               | Some s \<Rightarrow> (Some (s\<lparr>userdata := frame\<rparr>), t)))"

subsection \<open>scrcpy_icon_load and scrcpy_icon_destroy\<close>

definition scrcpy_icon_load :: "env \<Rightarrow> trace \<Rightarrow> SDL_Surface option \<times> trace" where
  "scrcpy_icon_load E t0 =
     (let (icon_path, t) = get_icon_path E t0 in
      case icon_path of
        None \<Rightarrow> (None, t)
      | Some p \<Rightarrow>
          let (icon, t) = load_from_path E p t;
              t = free_libc icon_path t
          in (icon, t))"

text \<open>
  \<^verbatim>\<open>scrcpy_icon_destroy\<close> either stops at \<^verbatim>\<open>assert(frame)\<close> or returns; the trace is the
  one reached.
\<close>

datatype 'a run = Assertion_failed 'a | Returned 'a

definition scrcpy_icon_destroy :: "SDL_Surface \<Rightarrow> trace \<Rightarrow> trace run" where
  "scrcpy_icon_destroy icon t0 =
     (let frame = userdata icon in
      if frame = None then Assertion_failed t0
      else
      let (frame, t) = av_frame_free frame t0;
          t = SDL_FreeSurface_call icon t
      in Returned t)"

section \<open>Reading a trace\<close>

fun acquired :: "trace \<Rightarrow> resource list" where
  "acquired [] = []"
| "acquired (Alloc r # es) = r # acquired es"
| "acquired (_ # es) = acquired es"

fun released :: "trace \<Rightarrow> resource list" where
  "released [] = []"
| "released (Free r # es) = r # released es"
| "released (_ # es) = released es"

fun logged :: "trace \<Rightarrow> message list" where
  "logged [] = []"
| "logged (LOGE m # es) = m # logged es"
| "logged (_ # es) = logged es"

fun calls :: "libcall \<Rightarrow> trace \<Rightarrow> nat" where
  "calls c [] = 0"
| "calls c (Call d # es) = (if c = d then Suc (calls c es) else calls c es)"
| "calls c (_ # es) = calls c es"

text \<open>
  \<open>live held t\<close>: the resources held after the trace \<open>t\<close>, the most recently acquired
  first, when \<open>held\<close> were held before it. \<open>None\<close> when the trace releases a resource
  that is not held.
\<close>

fun live :: "resource list \<Rightarrow> trace \<Rightarrow> resource list option" where
  "live held [] = Some held"
| "live held (Alloc r # es) = live (r # held) es"
| "live held (Free r # es) = (if r \<in> set held then live (remove1 r held) es else None)"
| "live held (_ # es) = live held es"

text \<open>
  \<open>lifo held t\<close>: the same, but every release must be of the most recently acquired
  resource still held (reverse order of acquisition).
\<close>

fun lifo :: "resource list \<Rightarrow> trace \<Rightarrow> resource list option" where
  "lifo held [] = Some held"
| "lifo held (Alloc r # es) = lifo (r # held) es"
| "lifo held (Free r # es) =
     (case held of [] \<Rightarrow> None | x # held' \<Rightarrow> if x = r then lifo held' es else None)"
| "lifo held (_ # es) = lifo held es"

section \<open>Concrete runs\<close>

text \<open>
  The trace of \<^verbatim>\<open>decode_image\<close> when every call succeeds: the packet, the decoder
  context and the container are released, the frame is kept for the caller.
\<close>

definition decode_ok_trace :: trace where
  "decode_ok_trace =
     [Call Avformat_alloc_context, Alloc FormatContext, Call Avformat_open_input,
      Call Avformat_find_stream_info, Call Av_find_best_stream, Call Avcodec_find_decoder,
      Call Avcodec_alloc_context3, Alloc CodecContext, Call Avcodec_parameters_to_context,
      Call Avcodec_open2, Call Av_frame_alloc, Alloc Frame, Call Av_packet_alloc, Alloc Packet,
      Call Av_read_frame, Call Avcodec_send_packet, Call Avcodec_receive_frame,
      Call Av_packet_free, Free Packet, Call Avcodec_close, Call Avcodec_free_context,
      Free CodecContext, Call Avformat_close_input, Free FormatContext,
      Call Avformat_free_context]"

text \<open>
  An installed build, no override in the environment, a 256 x 256 RGBA picture with rows
  of 1024 bytes, and every call succeeding.
\<close>

definition rgba_descriptor :: AVPixFmtDescriptor where
  "rgba_descriptor = \<lparr>name = ''rgba'', flags = AV_PIX_FMT_FLAG_RGB OR 128\<rparr>"

definition yuv420p_descriptor :: AVPixFmtDescriptor where
  "yuv420p_descriptor = \<lparr>name = ''yuv420p'', flags = AV_PIX_FMT_FLAG_PLANAR\<rparr>"

definition rgba_frame :: AVFrame where
  "rgba_frame =
     \<lparr>format = AV_PIX_FMT_RGBA, width = 256, height = 256, data0 = 4096, linesize0 = 1024\<rparr>"

definition env_ok :: env where
  "env_ok =
     \<lparr>PORTABLE = False, PREFIX = ''/usr/local'', getenv_ret = (\<lambda>_. None), strdup_ok = True,
      get_local_file_path_ret = (\<lambda>_. None), avformat_alloc_context_ok = True,
      avformat_open_input_ret = (\<lambda>_. 0), avformat_find_stream_info_ret = 0,
      av_find_best_stream_ret = 0, avcodec_find_decoder_ok = True,
      avcodec_alloc_context3_ok = True, avcodec_parameters_to_context_ret = 0,
      avcodec_open2_ret = 0, av_frame_alloc_ok = True, av_packet_alloc_ok = True,
      av_read_frame_ret = 0, avcodec_send_packet_ret = 0, avcodec_receive_frame_ret = 0,
      decoded = rgba_frame,
      av_pix_fmt_desc_get_ret =
        (\<lambda>fmt. if fmt = AV_PIX_FMT_RGBA then Some rgba_descriptor
              else if fmt = AV_PIX_FMT_other 0 then Some yuv420p_descriptor
              else None),
      av_get_bits_per_pixel_ret = (\<lambda>_. 32), SDL_CreateRGBSurfaceWithFormatFrom_ok = True\<rparr>"

text \<open>The same run with one outcome changed.\<close>

definition env_sdl_fails :: env where
  "env_sdl_fails = env_ok\<lparr>SDL_CreateRGBSurfaceWithFormatFrom_ok := False\<rparr>"

definition env_no_descriptor :: env where
  "env_no_descriptor = env_ok\<lparr>decoded := rgba_frame\<lparr>format := AV_PIX_FMT_other (-1)\<rparr>\<rparr>"

definition env_planar :: env where
  "env_planar = env_ok\<lparr>decoded := rgba_frame\<lparr>format := AV_PIX_FMT_other 0\<rparr>\<rparr>"

definition env_send_fails :: env where
  "env_send_fails = env_ok\<lparr>avcodec_send_packet_ret := - 22\<rparr>"

definition env_receive_again :: env where
  "env_receive_again = env_ok\<lparr>avcodec_receive_frame_ret := - 11\<rparr>"

definition env_override :: env where
  "env_override =
     env_ok\<lparr>getenv_ret := (\<lambda>v. if v = ''SCRCPY_ICON_PATH'' then Some ''/tmp/i.png'' else None)\<rparr>"

definition env_portable :: env where
  "env_portable =
     env_ok\<lparr>PORTABLE := True,
            get_local_file_path_ret := (\<lambda>f. Some (''/opt/scrcpy/'' @ f))\<rparr>"

definition env_no_memory :: env where
  "env_no_memory = env_ok\<lparr>strdup_ok := False\<rparr>"

text \<open>The traces of three of these runs.\<close>

definition decode_send_fails_trace :: trace where
  "decode_send_fails_trace =
     [Call Avformat_alloc_context, Alloc FormatContext, Call Avformat_open_input,
      Call Avformat_find_stream_info, Call Av_find_best_stream, Call Avcodec_find_decoder,
      Call Avcodec_alloc_context3, Alloc CodecContext, Call Avcodec_parameters_to_context,
      Call Avcodec_open2, Call Av_frame_alloc, Alloc Frame, Call Av_packet_alloc, Alloc Packet,
      Call Av_read_frame, Call Avcodec_send_packet, LOGE Could_not_send_icon_packet,
      Call Av_packet_free, Free Packet, Call Av_frame_free, Free Frame, Call Avcodec_close,
      Call Avcodec_free_context, Free CodecContext, Call Avformat_close_input,
      Free FormatContext, Call Avformat_free_context]"

definition decode_receive_fails_trace :: trace where
  "decode_receive_fails_trace =
     [Call Avformat_alloc_context, Alloc FormatContext, Call Avformat_open_input,
      Call Avformat_find_stream_info, Call Av_find_best_stream, Call Avcodec_find_decoder,
      Call Avcodec_alloc_context3, Alloc CodecContext, Call Avcodec_parameters_to_context,
      Call Avcodec_open2, Call Av_frame_alloc, Alloc Frame, Call Av_packet_alloc, Alloc Packet,
      Call Av_read_frame, Call Avcodec_send_packet, Call Avcodec_receive_frame,
      LOGE Could_not_receive_icon_frame, Call Av_packet_free, Free Packet, Call Av_frame_free,
      Free Frame, Call Avcodec_close, Call Avcodec_free_context, Free CodecContext,
      Call Avformat_close_input, Free FormatContext, Call Avformat_free_context]"

definition load_planar_trace :: trace where
  "load_planar_trace =
     decode_ok_trace @
     [Call Av_pix_fmt_desc_get, LOGE Could_not_load_non_RGB_icon, Call Av_frame_free,
      Free Frame]"

text \<open>
  A packed RGB format that the table of \<^verbatim>\<open>to_sdl_pixel_format\<close> does not hold
  (\<^verbatim>\<open>AV_PIX_FMT_RGB565LE\<close>).
\<close>

definition rgb565le_descriptor :: AVPixFmtDescriptor where
  "rgb565le_descriptor = \<lparr>name = ''rgb565le'', flags = AV_PIX_FMT_FLAG_RGB\<rparr>"

definition env_unmapped :: env where
  "env_unmapped =
     env_ok\<lparr>decoded := rgba_frame\<lparr>format := AV_PIX_FMT_other 37\<rparr>,
            av_pix_fmt_desc_get_ret := (\<lambda>_. Some rgb565le_descriptor)\<rparr>"

text \<open>The run \<open>env_ok\<close>: the path, the surface, and the traces.\<close>

definition installed_icon_path :: string where
  "installed_icon_path = ''/usr/local/share/icons/hicolor/256x256/apps/scrcpy.png''"

definition installed_path_trace :: trace where
  "installed_path_trace = [Call Getenv, LOGD Using_icon, Call Strdup, Alloc IconPath]"

definition rgba_surface :: SDL_Surface where
  "rgba_surface =
     \<lparr>pixels = 4096, surface_w = 256, surface_h = 256, depth = 32, pitch = 1024,
      pixel_format = SDL_PIXELFORMAT_RGBA32, userdata = Some rgba_frame\<rparr>"

definition load_ok_trace :: trace where
  "load_ok_trace =
     decode_ok_trace @
     [Call Av_pix_fmt_desc_get, Call Av_get_bits_per_pixel,
      Call SDL_CreateRGBSurfaceWithFormatFrom, Alloc Surface]"

definition icon_load_ok_trace :: trace where
  "icon_load_ok_trace = installed_path_trace @ load_ok_trace @ [Call Free_libc, Free IconPath]"

definition icon_load_planar_trace :: trace where
  "icon_load_planar_trace =
     installed_path_trace @ load_planar_trace @ [Call Free_libc, Free IconPath]"

text \<open>What \<^verbatim>\<open>scrcpy_icon_destroy\<close> appends when it returns.\<close>

definition destroy_trace :: trace where
  "destroy_trace = [Call Av_frame_free, Free Frame, Call SDL_FreeSurface, Free Surface]"

section \<open>Traces and runs: general facts\<close>

lemma acquired_append: "acquired (a @ b) = acquired a @ acquired b"
  by (induction a rule: acquired.induct) simp_all

lemma released_append: "released (a @ b) = released a @ released b"
  by (induction a rule: released.induct) simp_all

lemma logged_append: "logged (a @ b) = logged a @ logged b"
  by (induction a rule: logged.induct) simp_all

lemma calls_append: "calls c (a @ b) = calls c a + calls c b"
  by (induction c a rule: calls.induct) simp_all

lemma live_append:
  "live held (a @ b) = (case live held a of None \<Rightarrow> None | Some held' \<Rightarrow> live held' b)"
  by (induction held a rule: live.induct) simp_all

lemma lifo_append:
  "lifo held (a @ b) = (case lifo held a of None \<Rightarrow> None | Some held' \<Rightarrow> lifo held' b)"
  by (induction held a rule: lifo.induct) (simp_all split: list.splits)

lemmas lib_defs =
  avformat_alloc_context_def avformat_open_input_def avformat_find_stream_info_def
  av_find_best_stream_def avcodec_find_decoder_def avcodec_alloc_context3_def
  avcodec_parameters_to_context_def avcodec_open2_def av_frame_alloc_def av_packet_alloc_def
  av_read_frame_def avcodec_send_packet_def avcodec_receive_frame_def av_packet_free_def
  av_frame_free_def avcodec_close_def avcodec_free_context_def avformat_close_input_def
  avformat_free_context_def free_ctx_def close_input_def free_codec_ctx_def close_codec_def

lemmas load_defs =
  error_label_def av_frame_free_def av_pix_fmt_desc_get_def av_get_bits_per_pixel_def
  SDL_CreateRGBSurfaceWithFormatFrom_call_def

lemmas path_defs =
  get_icon_path_def getenv_def strdup_def get_local_file_path_def
  SCRCPY_DEFAULT_ICON_PATH_def SCRCPY_PORTABLE_ICON_FILENAME_def

text \<open>A run does not read the trace it extends.\<close>

lemma decode_image_append:
  "decode_image E path t0 = (fst (decode_image E path []), t0 @ snd (decode_image E path []))"
  by (simp add: decode_image_def lib_defs Let_def)

lemma load_from_path_append:
  "load_from_path E path t0 =
     (fst (load_from_path E path []), t0 @ snd (load_from_path E path []))"
  unfolding load_from_path_def
  by (subst decode_image_append)
     (simp add: Let_def load_defs split: option.splits prod.splits)

lemma get_icon_path_append:
  "get_icon_path E t0 = (fst (get_icon_path E []), t0 @ snd (get_icon_path E []))"
  by (simp add: path_defs Let_def split: option.splits)

text \<open>\<^verbatim>\<open>decode_image\<close> returns a frame on one path only.\<close>

lemma decode_image_Some:
  "fst (decode_image E path []) = Some f \<Longrightarrow>
     decode_image E path [] = (Some (decoded E), decode_ok_trace)"
  by (simp add: decode_image_def lib_defs Let_def decode_ok_trace_def split: if_splits)

lemma live_held: "live a t = Some r \<Longrightarrow> live (a @ h) t = Some (r @ h)"
proof (induction a t arbitrary: r rule: live.induct)
  case (3 held x es)
  then show ?case by (simp add: remove1_append split: if_splits)
qed simp_all

text \<open>The fixed mapping table of \<^verbatim>\<open>to_sdl_pixel_format\<close>.\<close>

lemma to_sdl_pixel_format_table:
  "to_sdl_pixel_format fmt \<noteq> SDL_PIXELFORMAT_UNKNOWN \<longleftrightarrow>
     fmt \<in> {AV_PIX_FMT_RGB24, AV_PIX_FMT_BGR24, AV_PIX_FMT_ARGB, AV_PIX_FMT_RGBA,
            AV_PIX_FMT_ABGR, AV_PIX_FMT_BGRA, AV_PIX_FMT_RGB565BE, AV_PIX_FMT_RGB555BE,
            AV_PIX_FMT_BGR565BE, AV_PIX_FMT_BGR555BE, AV_PIX_FMT_RGB444BE,
            AV_PIX_FMT_BGR444BE}"
  by (cases fmt) simp_all

text \<open>Every failing run of \<^verbatim>\<open>decode_image\<close> unwinds what it acquired.\<close>

lemma decode_image_fails:
  assumes "decode_image E path [] = (None, t)"
  shows "prefix (acquired t) [FormatContext, CodecContext, Frame, Packet] \<and>
         released t = rev (acquired t) \<and> lifo [] t = Some [] \<and> live [] t = Some [] \<and>
         length (logged t) = 1"
  using assms
  by (simp add: decode_image_def lib_defs Let_def split: if_splits) auto

text \<open>
  The read, submit and request steps of \<^verbatim>\<open>decode_image\<close>, for every status: the submit
  step is tested with \<^verbatim>\<open>< 0\<close>, the request step with \<^verbatim>\<open>!= 0\<close>.
\<close>

lemma decode_image_single_attempt:
  assumes "decode_image E path [] = (r, t)"
  shows "calls Av_read_frame t \<le> 1 \<and> calls Avcodec_send_packet t \<le> 1 \<and>
         calls Avcodec_receive_frame t \<le> 1 \<and>
         (calls Avcodec_send_packet t = 1 \<and> avcodec_send_packet_ret E < 0 \<longrightarrow>
            r = None \<and> logged t = [Could_not_send_icon_packet] \<and>
            calls Avcodec_receive_frame t = 0) \<and>
         (calls Avcodec_send_packet t = 1 \<and> 0 \<le> avcodec_send_packet_ret E \<longrightarrow>
            calls Avcodec_receive_frame t = 1) \<and>
         (calls Avcodec_receive_frame t = 1 \<and> avcodec_receive_frame_ret E \<noteq> 0 \<longrightarrow>
            r = None \<and> logged t = [Could_not_receive_icon_frame]) \<and>
         (calls Avcodec_receive_frame t = 1 \<and> avcodec_receive_frame_ret E = 0 \<longrightarrow>
            r = Some (decoded E) \<and> logged t = [])"
  using assms
  by (simp add: decode_image_def lib_defs Let_def split: if_splits) auto

text \<open>\<^verbatim>\<open>load_from_path\<close>, by the outcome of \<^verbatim>\<open>decode_image\<close>.\<close>

lemma load_from_path_decode_fails:
  assumes "fst (decode_image E path []) = None"
  shows "load_from_path E path [] = (None, snd (decode_image E path []))"
  using assms by (cases "decode_image E path []") (simp add: load_from_path_def)

lemma load_from_path_after_decode:
  assumes "fst (decode_image E path []) = Some f"
  shows "load_from_path E path [] =
     (case av_pix_fmt_desc_get_ret E (format (decoded E)) of
        None \<Rightarrow>
          (None, decode_ok_trace @
             [Call Av_pix_fmt_desc_get, LOGE Could_not_get_icon_format_descriptor,
              Call Av_frame_free, Free Frame])
      | Some d \<Rightarrow>
          if \<not> is_packed_rgb d then
            (None, decode_ok_trace @
               [Call Av_pix_fmt_desc_get, LOGE Could_not_load_non_RGB_icon,
                Call Av_frame_free, Free Frame])
          else if to_sdl_pixel_format (format (decoded E)) = SDL_PIXELFORMAT_UNKNOWN then
            (None, decode_ok_trace @
               [Call Av_pix_fmt_desc_get, LOGE Unsupported_icon_pixel_format,
                Call Av_frame_free, Free Frame])
          else if \<not> SDL_CreateRGBSurfaceWithFormatFrom_ok E then
            (None, decode_ok_trace @
               [Call Av_pix_fmt_desc_get, Call Av_get_bits_per_pixel,
                Call SDL_CreateRGBSurfaceWithFormatFrom, LOGE Could_not_create_icon_surface,
                Call Av_frame_free, Free Frame])
          else
            (Some \<lparr>pixels = data0 (decoded E), surface_w = width (decoded E),
                   surface_h = height (decoded E), depth = av_get_bits_per_pixel_ret E d,
                   pitch = linesize0 (decoded E),
                   pixel_format = to_sdl_pixel_format (format (decoded E)),
                   userdata = Some (decoded E)\<rparr>,
             decode_ok_trace @
               [Call Av_pix_fmt_desc_get, Call Av_get_bits_per_pixel,
                Call SDL_CreateRGBSurfaceWithFormatFrom, Alloc Surface]))"
  using decode_image_Some [OF assms]
  by (simp add: load_from_path_def load_defs Let_def split: option.splits)

lemma load_from_path_Some:
  assumes "load_from_path E path [] = (Some s, t)"
  shows "\<exists>d. fst (decode_image E path []) = Some (decoded E) \<and>
             av_pix_fmt_desc_get_ret E (format (decoded E)) = Some d \<and> is_packed_rgb d \<and>
             to_sdl_pixel_format (format (decoded E)) \<noteq> SDL_PIXELFORMAT_UNKNOWN \<and>
             SDL_CreateRGBSurfaceWithFormatFrom_ok E \<and>
             s = \<lparr>pixels = data0 (decoded E), surface_w = width (decoded E),
                   surface_h = height (decoded E), depth = av_get_bits_per_pixel_ret E d,
                   pitch = linesize0 (decoded E),
                   pixel_format = to_sdl_pixel_format (format (decoded E)),
                   userdata = Some (decoded E)\<rparr> \<and>
             t = load_ok_trace"
proof (cases "fst (decode_image E path [])")
  case None
  with assms show ?thesis by (simp add: load_from_path_decode_fails)
next
  case (Some f)
  from assms load_from_path_after_decode [OF Some] decode_image_Some [OF Some]
  show ?thesis
    by (auto simp: load_ok_trace_def split: option.splits if_splits)
qed

lemma load_from_path_None:
  assumes "load_from_path E path [] = (None, t)"
  shows "live [] t = Some [] \<and> length (logged t) = 1 \<and> Surface \<notin> set (acquired t) \<and>
         IconPath \<notin> set (acquired t) \<and> IconPath \<notin> set (released t)"
proof (cases "fst (decode_image E path [])")
  case None
  with assms have run: "decode_image E path [] = (None, t)"
    by (simp add: load_from_path_decode_fails prod_eq_iff)
  from decode_image_fails [OF run] have 1: "live [] t = Some []" "length (logged t) = 1"
    and p: "prefix (acquired t) [FormatContext, CodecContext, Frame, Packet]"
    and r: "released t = rev (acquired t)"
    by simp_all
  from p have "set (acquired t) \<subseteq> {FormatContext, CodecContext, Frame, Packet}"
    using set_mono_prefix by fastforce
  with r 1 show ?thesis by auto
next
  case (Some f)
  from assms load_from_path_after_decode [OF Some] show ?thesis
    by (auto simp: decode_ok_trace_def split: option.splits if_splits)
qed

lemma live_load_ok_trace: "live held load_ok_trace = Some (Surface # Frame # held)"
  by (simp add: load_ok_trace_def decode_ok_trace_def)

text \<open>\<^verbatim>\<open>get_icon_path\<close>: the path string is the one resource it acquires.\<close>

lemma get_icon_path_Some:
  assumes "get_icon_path E [] = (Some p, t)"
  shows "acquired t = [IconPath] \<and> released t = [] \<and> logged t = []"
  using assms by (auto simp: path_defs Let_def split: option.splits if_splits)

lemma get_icon_path_None:
  assumes "get_icon_path E [] = (None, t)"
  shows "acquired t = [] \<and> released t = [] \<and> length (logged t) = 1"
  using assms by (auto simp: path_defs Let_def split: option.splits if_splits)

lemma get_icon_path_live:
  assumes "get_icon_path E [] = (r, t)"
  shows "live [] t = Some (case r of None \<Rightarrow> [] | Some _ \<Rightarrow> [IconPath])"
  using assms by (auto simp: path_defs Let_def split: option.splits if_splits)

text \<open>\<^verbatim>\<open>scrcpy_icon_load\<close>, by the outcome of \<^verbatim>\<open>get_icon_path\<close>.\<close>

lemma scrcpy_icon_load_no_path:
  assumes "get_icon_path E [] = (None, t)"
  shows "scrcpy_icon_load E [] = (None, t)"
  using assms by (simp add: scrcpy_icon_load_def)

lemma scrcpy_icon_load_path:
  assumes "get_icon_path E [] = (Some p, t)"
  shows "scrcpy_icon_load E [] =
           (fst (load_from_path E p []),
            t @ snd (load_from_path E p []) @ [Call Free_libc, Free IconPath])"
  using assms
  by (simp add: scrcpy_icon_load_def free_libc_def Let_def load_from_path_append [of E p t]
      split: prod.splits)

lemma scrcpy_icon_load_Some:
  assumes "scrcpy_icon_load E [] = (Some s, t)"
  shows "\<exists>p t1 d.
           get_icon_path E [] = (Some p, t1) \<and>
           fst (decode_image E p []) = Some (decoded E) \<and>
           av_pix_fmt_desc_get_ret E (format (decoded E)) = Some d \<and> is_packed_rgb d \<and>
           to_sdl_pixel_format (format (decoded E)) \<noteq> SDL_PIXELFORMAT_UNKNOWN \<and>
           s = \<lparr>pixels = data0 (decoded E), surface_w = width (decoded E),
                 surface_h = height (decoded E), depth = av_get_bits_per_pixel_ret E d,
                 pitch = linesize0 (decoded E),
                 pixel_format = to_sdl_pixel_format (format (decoded E)),
                 userdata = Some (decoded E)\<rparr> \<and>
           t = t1 @ load_ok_trace @ [Call Free_libc, Free IconPath]"
proof (cases "get_icon_path E []")
  case (Pair r t1)
  show ?thesis
  proof (cases r)
    case None
    with Pair assms show ?thesis by (simp add: scrcpy_icon_load_no_path)
  next
    case (Some p)
    with Pair have path: "get_icon_path E [] = (Some p, t1)" by simp
    from assms scrcpy_icon_load_path [OF path]
    have "load_from_path E p [] = (Some s, snd (load_from_path E p []))"
      and t: "t = t1 @ snd (load_from_path E p []) @ [Call Free_libc, Free IconPath]"
      by (simp_all add: prod_eq_iff)
    from load_from_path_Some [OF this(1)] path t show ?thesis by auto
  qed
qed

lemma scrcpy_icon_load_None:
  assumes "scrcpy_icon_load E [] = (None, t)"
  shows "Surface \<notin> set (acquired t) \<and> length (logged t) = 1 \<and> live [] t = Some []"
proof (cases "get_icon_path E []")
  case (Pair r t1)
  show ?thesis
  proof (cases r)
    case None
    with Pair have path: "get_icon_path E [] = (None, t1)" by simp
    from assms scrcpy_icon_load_no_path [OF path] have "t = t1" by simp
    with get_icon_path_None [OF path] get_icon_path_live [OF path] show ?thesis by simp
  next
    case (Some p)
    with Pair have path: "get_icon_path E [] = (Some p, t1)" by simp
    from assms scrcpy_icon_load_path [OF path]
    have run: "load_from_path E p [] = (None, snd (load_from_path E p []))"
      and t: "t = t1 @ snd (load_from_path E p []) @ [Call Free_libc, Free IconPath]"
      by (simp_all add: prod_eq_iff)
    from load_from_path_None [OF run]
    have l: "live [] (snd (load_from_path E p [])) = Some []"
      and m: "length (logged (snd (load_from_path E p []))) = 1"
      and n: "Surface \<notin> set (acquired (snd (load_from_path E p [])))"
      by simp_all
    from live_held [OF l, of "[IconPath]"]
    have "live [IconPath] (snd (load_from_path E p [])) = Some [IconPath]" by simp
    with t m n get_icon_path_Some [OF path] get_icon_path_live [OF path]
    show ?thesis
      by (simp add: acquired_append logged_append live_append)
  qed
qed

section \<open>The concrete runs, evaluated\<close>

lemmas env_defs =
  env_ok_def env_sdl_fails_def env_no_descriptor_def env_planar_def
  env_send_fails_def env_receive_again_def env_override_def env_portable_def env_no_memory_def
  env_unmapped_def

lemma rgba_packed: "is_packed_rgb rgba_descriptor"
  by (simp add: is_packed_rgb_def rgba_descriptor_def AV_PIX_FMT_FLAG_RGB_def
      AV_PIX_FMT_FLAG_PLANAR_def)

lemma yuv_not_packed: "\<not> is_packed_rgb yuv420p_descriptor"
  by (simp add: is_packed_rgb_def yuv420p_descriptor_def AV_PIX_FMT_FLAG_RGB_def
      AV_PIX_FMT_FLAG_PLANAR_def)

lemma run_env_ok: "decode_image env_ok p [] = (Some rgba_frame, decode_ok_trace)"
  by (simp add: decode_image_def lib_defs Let_def decode_ok_trace_def env_defs)

lemma run_env_send_fails:
  "decode_image env_send_fails p [] = (None, decode_send_fails_trace)"
  by (simp add: decode_image_def lib_defs Let_def decode_send_fails_trace_def env_defs)

lemma run_env_receive_again:
  "decode_image env_receive_again p [] = (None, decode_receive_fails_trace)"
  by (simp add: decode_image_def lib_defs Let_def decode_receive_fails_trace_def env_defs)

lemma run_env_planar:
  "decode_image env_planar p [] =
     (Some (rgba_frame\<lparr>format := AV_PIX_FMT_other 0\<rparr>), decode_ok_trace)"
  by (simp add: decode_image_def lib_defs Let_def decode_ok_trace_def env_defs)

lemma run_env_no_descriptor:
  "decode_image env_no_descriptor p [] =
     (Some (rgba_frame\<lparr>format := AV_PIX_FMT_other (- 1)\<rparr>), decode_ok_trace)"
  by (simp add: decode_image_def lib_defs Let_def decode_ok_trace_def env_defs)

lemma run_env_sdl_fails:
  "decode_image env_sdl_fails p [] = (Some rgba_frame, decode_ok_trace)"
  by (simp add: decode_image_def lib_defs Let_def decode_ok_trace_def env_defs)

lemma load_env_planar: "load_from_path env_planar p [] = (None, load_planar_trace)"
proof -
  have "fst (decode_image env_planar p []) = Some (rgba_frame\<lparr>format := AV_PIX_FMT_other 0\<rparr>)"
    by (simp add: run_env_planar)
  from load_from_path_after_decode [OF this] show ?thesis
    by (simp add: env_defs rgba_frame_def yuv_not_packed load_planar_trace_def)
qed

lemma rgb565le_packed: "is_packed_rgb rgb565le_descriptor"
  by (simp add: is_packed_rgb_def rgb565le_descriptor_def AV_PIX_FMT_FLAG_RGB_def
      AV_PIX_FMT_FLAG_PLANAR_def)

lemma run_env_unmapped:
  "decode_image env_unmapped p [] =
     (Some (rgba_frame\<lparr>format := AV_PIX_FMT_other 37\<rparr>), decode_ok_trace)"
  by (simp add: decode_image_def lib_defs Let_def decode_ok_trace_def env_defs)

lemma path_env_ok: "get_icon_path env_ok [] = (Some installed_icon_path, installed_path_trace)"
  by (simp add: path_defs Let_def env_defs installed_icon_path_def installed_path_trace_def)

lemma path_env_sdl_fails:
  "get_icon_path env_sdl_fails [] = (Some installed_icon_path, installed_path_trace)"
  by (simp add: path_defs Let_def env_defs installed_icon_path_def installed_path_trace_def)

lemma path_env_planar:
  "get_icon_path env_planar [] = (Some installed_icon_path, installed_path_trace)"
  by (simp add: path_defs Let_def env_defs installed_icon_path_def installed_path_trace_def)

lemma load_env_ok: "load_from_path env_ok p [] = (Some rgba_surface, load_ok_trace)"
proof -
  have "fst (decode_image env_ok p []) = Some rgba_frame"
    by (simp add: run_env_ok)
  from load_from_path_after_decode [OF this] show ?thesis
    by (simp add: env_defs rgba_frame_def rgba_packed rgba_surface_def load_ok_trace_def)
qed

lemma load_env_sdl_fails: "fst (load_from_path env_sdl_fails p []) = None"
proof -
  have "fst (decode_image env_sdl_fails p []) = Some rgba_frame"
    by (simp add: run_env_sdl_fails)
  from load_from_path_after_decode [OF this] show ?thesis
    by (simp add: env_defs rgba_frame_def rgba_packed)
qed

lemma icon_load_env_ok: "scrcpy_icon_load env_ok [] = (Some rgba_surface, icon_load_ok_trace)"
  by (simp add: scrcpy_icon_load_path [OF path_env_ok] load_env_ok icon_load_ok_trace_def)

lemma icon_load_env_planar: "scrcpy_icon_load env_planar [] = (None, icon_load_planar_trace)"
  by (simp add: scrcpy_icon_load_path [OF path_env_planar] load_env_planar
      icon_load_planar_trace_def)

section \<open>The claims\<close>

subsection \<open>C1: the surface of a packed RGB picture\<close>

text \<open>
  C1, as stated: for every input file that decodes to a frame whose pixel format is packed
  RGB and in the mapping table, \<^verbatim>\<open>scrcpy_icon_load\<close> returns a surface with the frame's
  width and height and the mapped format. In the run \<open>env_sdl_fails\<close> the file decodes
  to the 256 x 256 RGBA frame, \<^verbatim>\<open>SDL_CreateRGBSurfaceWithFormatFrom\<close> returns \<^verbatim>\<open>NULL\<close>, and
  \<^verbatim>\<open>scrcpy_icon_load\<close> returns \<^verbatim>\<open>NULL\<close>.
\<close>

theorem scrcpy_icon_load_absent_when_surface_creation_fails:
  "get_icon_path env_sdl_fails [] = (Some installed_icon_path, installed_path_trace) \<and>
   fst (decode_image env_sdl_fails installed_icon_path []) = Some rgba_frame \<and>
   av_pix_fmt_desc_get_ret env_sdl_fails (format rgba_frame) = Some rgba_descriptor \<and>
   is_packed_rgb rgba_descriptor \<and>
   to_sdl_pixel_format (format rgba_frame) = SDL_PIXELFORMAT_RGBA32 \<and>
   fst (scrcpy_icon_load env_sdl_fails []) = None"
proof (intro conjI)
  show "get_icon_path env_sdl_fails [] = (Some installed_icon_path, installed_path_trace)"
    by (rule path_env_sdl_fails)
  show "fst (decode_image env_sdl_fails installed_icon_path []) = Some rgba_frame"
    by (simp add: run_env_sdl_fails)
  show "av_pix_fmt_desc_get_ret env_sdl_fails (format rgba_frame) = Some rgba_descriptor"
    by (simp add: env_defs rgba_frame_def)
  show "is_packed_rgb rgba_descriptor" by (rule rgba_packed)
  show "to_sdl_pixel_format (format rgba_frame) = SDL_PIXELFORMAT_RGBA32"
    by (simp add: rgba_frame_def)
  show "fst (scrcpy_icon_load env_sdl_fails []) = None"
    by (simp add: scrcpy_icon_load_path [OF path_env_sdl_fails] load_env_sdl_fails)
qed

text \<open>
  C1, amended: when the path is resolved and the file decodes to a frame whose pixel format
  has a descriptor, is packed RGB and is in the mapping table, the result of
  \<^verbatim>\<open>scrcpy_icon_load\<close> is decided by the surface constructor of SDL. When the constructor
  succeeds, the function returns a surface whose width and height are the frame's, whose
  format tag is the table's mapping of the frame's format, whose pixels and pitch are the
  frame's first plane and its line size, and whose \<^verbatim>\<open>userdata\<close> is the frame. When the
  constructor fails, the function returns \<^verbatim>\<open>NULL\<close> and the one error logged is that of
  the surface creation.
\<close>

theorem scrcpy_icon_load_packed_rgb:
  assumes "get_icon_path E [] = (Some p, t1)"
    and "fst (decode_image E p []) = Some f"
    and "av_pix_fmt_desc_get_ret E (format f) = Some d"
    and "is_packed_rgb d"
    and "to_sdl_pixel_format (format f) \<noteq> SDL_PIXELFORMAT_UNKNOWN"
  shows "if SDL_CreateRGBSurfaceWithFormatFrom_ok E
         then \<exists>s. fst (scrcpy_icon_load E []) = Some s \<and>
                  surface_w s = width f \<and> surface_h s = height f \<and>
                  pixel_format s = to_sdl_pixel_format (format f) \<and>
                  pixels s = data0 f \<and> pitch s = linesize0 f \<and> userdata s = Some f
         else fst (scrcpy_icon_load E []) = None \<and>
              logged (snd (scrcpy_icon_load E [])) = [Could_not_create_icon_surface]"
proof -
  from decode_image_Some [OF assms(2)] assms(2) have f: "f = decoded E" by simp
  have l: "logged t1 = []"
    using get_icon_path_Some [OF assms(1)] by simp
  from load_from_path_after_decode [OF assms(2)] assms(3-5) f l
  show ?thesis
    by (simp add: scrcpy_icon_load_path [OF assms(1)] logged_append decode_ok_trace_def)
qed

theorem scrcpy_icon_load_packed_rgb_witness:
  "get_icon_path env_ok [] = (Some installed_icon_path, installed_path_trace) \<and>
   fst (decode_image env_ok installed_icon_path []) = Some rgba_frame \<and>
   av_pix_fmt_desc_get_ret env_ok (format rgba_frame) = Some rgba_descriptor \<and>
   is_packed_rgb rgba_descriptor \<and>
   to_sdl_pixel_format (format rgba_frame) \<noteq> SDL_PIXELFORMAT_UNKNOWN \<and>
   SDL_CreateRGBSurfaceWithFormatFrom_ok env_ok \<and>
   (\<exists>s. fst (scrcpy_icon_load env_ok []) = Some s \<and>
        surface_w s = 256 \<and> surface_h s = 256 \<and> pixel_format s = SDL_PIXELFORMAT_RGBA32 \<and>
        pitch s = 1024) \<and>
   get_icon_path env_sdl_fails [] = (Some installed_icon_path, installed_path_trace) \<and>
   fst (decode_image env_sdl_fails installed_icon_path []) = Some rgba_frame \<and>
   av_pix_fmt_desc_get_ret env_sdl_fails (format rgba_frame) = Some rgba_descriptor \<and>
   \<not> SDL_CreateRGBSurfaceWithFormatFrom_ok env_sdl_fails \<and>
   logged (snd (scrcpy_icon_load env_sdl_fails [])) = [Could_not_create_icon_surface]"
proof -
  have a: "get_icon_path env_ok [] = (Some installed_icon_path, installed_path_trace)"
    by (rule path_env_ok)
  have b: "fst (decode_image env_ok installed_icon_path []) = Some rgba_frame"
    by (simp add: run_env_ok)
  have c: "av_pix_fmt_desc_get_ret env_ok (format rgba_frame) = Some rgba_descriptor"
    by (simp add: env_defs rgba_frame_def)
  have d: "to_sdl_pixel_format (format rgba_frame) \<noteq> SDL_PIXELFORMAT_UNKNOWN"
    by (simp add: rgba_frame_def)
  have e: "SDL_CreateRGBSurfaceWithFormatFrom_ok env_ok"
    by (simp add: env_defs)
  have a': "get_icon_path env_sdl_fails [] = (Some installed_icon_path, installed_path_trace)"
    by (rule path_env_sdl_fails)
  have b': "fst (decode_image env_sdl_fails installed_icon_path []) = Some rgba_frame"
    by (simp add: run_env_sdl_fails)
  have c': "av_pix_fmt_desc_get_ret env_sdl_fails (format rgba_frame) = Some rgba_descriptor"
    by (simp add: env_defs rgba_frame_def)
  have e': "\<not> SDL_CreateRGBSurfaceWithFormatFrom_ok env_sdl_fails"
    by (simp add: env_defs)
  from scrcpy_icon_load_packed_rgb [OF a b c rgba_packed d]
    scrcpy_icon_load_packed_rgb [OF a' b' c' rgba_packed d]
    a b c d e a' b' c' e' rgba_packed
  show ?thesis by (auto simp: rgba_frame_def)
qed

subsection \<open>C2: the rejections by pixel format\<close>

text \<open>
  C2, as stated: \<^verbatim>\<open>load_from_path\<close> rejects a decoded frame on its format in two ways only,
  an unsupported layout (no RGB flag, or the planar flag) and a packed RGB format missing
  from the table. The function has a third rejection on the format, before the two: the
  format has no descriptor. The run \<open>env_no_descriptor\<close> is the run \<open>env_ok\<close> with the
  format of the decoded frame changed to one without a descriptor; it is rejected with
  the message of that branch, and \<open>env_ok\<close> is not rejected.
\<close>

theorem load_from_path_rejects_format_without_descriptor:
  "fst (decode_image env_no_descriptor ''icon.png'' []) =
     Some (rgba_frame\<lparr>format := AV_PIX_FMT_other (- 1)\<rparr>) \<and>
   av_pix_fmt_desc_get_ret env_no_descriptor (AV_PIX_FMT_other (- 1)) = None \<and>
   fst (load_from_path env_no_descriptor ''icon.png'' []) = None \<and>
   logged (snd (load_from_path env_no_descriptor ''icon.png'' [])) =
     [Could_not_get_icon_format_descriptor] \<and>
   env_no_descriptor = env_ok\<lparr>decoded := rgba_frame\<lparr>format := AV_PIX_FMT_other (- 1)\<rparr>\<rparr> \<and>
   fst (load_from_path env_ok ''icon.png'' []) = Some rgba_surface"
proof -
  have a: "fst (decode_image env_no_descriptor ''icon.png'' []) =
     Some (rgba_frame\<lparr>format := AV_PIX_FMT_other (- 1)\<rparr>)"
    by (simp add: run_env_no_descriptor)
  have b: "av_pix_fmt_desc_get_ret env_no_descriptor (AV_PIX_FMT_other (- 1)) = None"
    by (simp add: env_defs)
  have c: "format (decoded env_no_descriptor) = AV_PIX_FMT_other (- 1)"
    by (simp add: env_defs)
  from load_from_path_after_decode [OF a] b c
  have "load_from_path env_no_descriptor ''icon.png'' [] =
          (None, decode_ok_trace @
             [Call Av_pix_fmt_desc_get, LOGE Could_not_get_icon_format_descriptor,
              Call Av_frame_free, Free Frame])"
    by simp
  then have d: "fst (load_from_path env_no_descriptor ''icon.png'' []) = None"
    and e: "logged (snd (load_from_path env_no_descriptor ''icon.png'' [])) =
              [Could_not_get_icon_format_descriptor]"
    by (simp_all add: decode_ok_trace_def)
  show ?thesis using a b d e
    by (simp add: load_env_ok env_no_descriptor_def)
qed

text \<open>
  C2, amended: for every frame that \<^verbatim>\<open>decode_image\<close> returns, \<^verbatim>\<open>load_from_path\<close> fails
  with the message of the missing descriptor when the format has no descriptor; otherwise
  with the message of the unsupported layout when the descriptor lacks the RGB flag or has
  the planar flag; otherwise with the message of the unmapped format when the table does
  not hold the format. These three conditions exclude one another, every failing run logs
  exactly one message, and a frame that meets none of them is rejected only when the
  surface constructor fails.
\<close>

theorem load_from_path_format_rejections:
  assumes "fst (decode_image E path []) = Some f"
    and "load_from_path E path [] = (r, t)"
  shows "case av_pix_fmt_desc_get_ret E (format f) of
           None \<Rightarrow> r = None \<and> logged t = [Could_not_get_icon_format_descriptor]
         | Some d \<Rightarrow>
             if flags d AND AV_PIX_FMT_FLAG_RGB = 0 \<or> flags d AND AV_PIX_FMT_FLAG_PLANAR \<noteq> 0
             then r = None \<and> logged t = [Could_not_load_non_RGB_icon]
             else if to_sdl_pixel_format (format f) = SDL_PIXELFORMAT_UNKNOWN
             then r = None \<and> logged t = [Unsupported_icon_pixel_format]
             else if SDL_CreateRGBSurfaceWithFormatFrom_ok E
             then r \<noteq> None \<and> logged t = []
             else r = None \<and> logged t = [Could_not_create_icon_surface]"
proof -
  from decode_image_Some [OF assms(1)] assms(1) have f: "f = decoded E" by simp
  from load_from_path_after_decode [OF assms(1)] assms(2) f
  show ?thesis
    by (auto simp: is_packed_rgb_def logged_append decode_ok_trace_def split: option.splits)
qed

theorem load_from_path_format_rejections_witness:
  "fst (decode_image env_planar ''icon.png'' []) =
     Some (rgba_frame\<lparr>format := AV_PIX_FMT_other 0\<rparr>) \<and>
   load_from_path env_planar ''icon.png'' [] = (None, load_planar_trace) \<and>
   logged load_planar_trace = [Could_not_load_non_RGB_icon] \<and>
   fst (decode_image env_unmapped ''icon.png'' []) =
     Some (rgba_frame\<lparr>format := AV_PIX_FMT_other 37\<rparr>) \<and>
   fst (load_from_path env_unmapped ''icon.png'' []) = None \<and>
   logged (snd (load_from_path env_unmapped ''icon.png'' [])) = [Unsupported_icon_pixel_format]"
proof -
  have a: "fst (decode_image env_planar ''icon.png'' []) =
     Some (rgba_frame\<lparr>format := AV_PIX_FMT_other 0\<rparr>)"
    by (simp add: run_env_planar)
  have b: "load_from_path env_planar ''icon.png'' [] = (None, load_planar_trace)"
    by (rule load_env_planar)
  have c: "fst (decode_image env_unmapped ''icon.png'' []) =
     Some (rgba_frame\<lparr>format := AV_PIX_FMT_other 37\<rparr>)"
    by (simp add: run_env_unmapped)
  have d: "load_from_path env_unmapped ''icon.png'' [] =
     (fst (load_from_path env_unmapped ''icon.png'' []),
      snd (load_from_path env_unmapped ''icon.png'' []))"
    by simp
  have e: "av_pix_fmt_desc_get_ret env_planar (AV_PIX_FMT_other 0) = Some yuv420p_descriptor"
    "av_pix_fmt_desc_get_ret env_unmapped (AV_PIX_FMT_other 37) = Some rgb565le_descriptor"
    by (simp_all add: env_defs)
  have g: "flags yuv420p_descriptor AND AV_PIX_FMT_FLAG_PLANAR \<noteq> 0"
    "\<not> (flags rgb565le_descriptor AND AV_PIX_FMT_FLAG_RGB = 0 \<or>
        flags rgb565le_descriptor AND AV_PIX_FMT_FLAG_PLANAR \<noteq> 0)"
    using yuv_not_packed rgb565le_packed
    by (simp_all add: is_packed_rgb_def yuv420p_descriptor_def AV_PIX_FMT_FLAG_PLANAR_def)
  from load_from_path_format_rejections [OF a b] load_from_path_format_rejections [OF c d]
    a b c e g
  show ?thesis by (simp add: rgba_frame_def)
qed

subsection \<open>C3: the single decode attempt\<close>

text \<open>
  C3: \<^verbatim>\<open>avcodec_send_packet\<close> returns 0 on success and a negative error code otherwise,
  so the statuses the packet-submit step can return are those that are not positive;
  \<^verbatim>\<open>avcodec_receive_frame\<close> is tested against 0 and its status is not restricted. In
  every such run of \<^verbatim>\<open>decode_image\<close>, a non-zero status of the packet-submit step fails
  the decode with the message of the submit step, before any frame is requested, and a
  non-zero status of the frame-request step fails the decode with the message of the
  request step. There is no retry and no second request: the read, the submit and the
  request step are each called at most once, and a zero status of the request step returns
  the decoded frame.
\<close>

theorem decode_image_nonzero_status_fails:
  assumes "decode_image E path [] = (r, t)"
    and "avcodec_send_packet_ret E \<le> 0"
  shows "calls Av_read_frame t \<le> 1 \<and> calls Avcodec_send_packet t \<le> 1 \<and>
         calls Avcodec_receive_frame t \<le> 1 \<and>
         (calls Avcodec_send_packet t = 1 \<and> avcodec_send_packet_ret E \<noteq> 0 \<longrightarrow>
            r = None \<and> logged t = [Could_not_send_icon_packet] \<and>
            calls Avcodec_receive_frame t = 0) \<and>
         (calls Avcodec_send_packet t = 1 \<and> avcodec_send_packet_ret E = 0 \<longrightarrow>
            calls Avcodec_receive_frame t = 1) \<and>
         (calls Avcodec_receive_frame t = 1 \<and> avcodec_receive_frame_ret E \<noteq> 0 \<longrightarrow>
            r = None \<and> logged t = [Could_not_receive_icon_frame]) \<and>
         (calls Avcodec_receive_frame t = 1 \<and> avcodec_receive_frame_ret E = 0 \<longrightarrow>
            r = Some (decoded E) \<and> logged t = [])"
proof -
  from assms(2) have "avcodec_send_packet_ret E \<noteq> 0 \<longleftrightarrow> avcodec_send_packet_ret E < 0"
    and "avcodec_send_packet_ret E = 0 \<longleftrightarrow> 0 \<le> avcodec_send_packet_ret E"
    by auto
  with decode_image_single_attempt [OF assms(1)] show ?thesis by simp
qed

theorem decode_image_nonzero_status_fails_witness:
  "decode_image env_send_fails ''icon.png'' [] = (None, decode_send_fails_trace) \<and>
   avcodec_send_packet_ret env_send_fails \<le> 0 \<and>
   calls Avcodec_send_packet decode_send_fails_trace = 1 \<and>
   avcodec_send_packet_ret env_send_fails \<noteq> 0 \<and>
   logged decode_send_fails_trace = [Could_not_send_icon_packet] \<and>
   calls Avcodec_receive_frame decode_send_fails_trace = 0 \<and>
   decode_image env_receive_again ''icon.png'' [] = (None, decode_receive_fails_trace) \<and>
   avcodec_send_packet_ret env_receive_again \<le> 0 \<and>
   calls Avcodec_receive_frame decode_receive_fails_trace = 1 \<and>
   avcodec_receive_frame_ret env_receive_again \<noteq> 0 \<and>
   logged decode_receive_fails_trace = [Could_not_receive_icon_frame]"
proof -
  have a: "decode_image env_send_fails ''icon.png'' [] = (None, decode_send_fails_trace)"
    by (rule run_env_send_fails)
  have b: "decode_image env_receive_again ''icon.png'' [] = (None, decode_receive_fails_trace)"
    by (rule run_env_receive_again)
  have c: "calls Avcodec_send_packet decode_send_fails_trace = 1"
    by (simp add: decode_send_fails_trace_def)
  have d: "avcodec_send_packet_ret env_send_fails \<le> 0"
    "avcodec_send_packet_ret env_send_fails \<noteq> 0"
    by (simp_all add: env_defs)
  have e: "calls Avcodec_receive_frame decode_receive_fails_trace = 1"
    by (simp add: decode_receive_fails_trace_def)
  have f: "avcodec_send_packet_ret env_receive_again \<le> 0"
    "avcodec_receive_frame_ret env_receive_again \<noteq> 0"
    by (simp_all add: env_defs)
  from decode_image_nonzero_status_fails [OF a d(1)]
    decode_image_nonzero_status_fails [OF b f(1)] a b c d e f
  show ?thesis by simp
qed

subsection \<open>C4: release on failure\<close>

text \<open>
  C4, as stated: in every failing run of \<^verbatim>\<open>decode_image\<close> or \<^verbatim>\<open>load_from_path\<close> the
  resources acquired so far are released in reverse order of acquisition, the frame and
  the packet before the decoder context. In the run \<open>env_planar\<close> the decode succeeds and
  \<^verbatim>\<open>load_from_path\<close> then rejects the planar frame: the decoder context and the container
  were released when \<^verbatim>\<open>decode_image\<close> returned, and the frame is released after them.
\<close>

theorem load_from_path_releases_frame_last:
  "load_from_path env_planar ''icon.png'' [] = (None, load_planar_trace) \<and>
   acquired load_planar_trace = [FormatContext, CodecContext, Frame, Packet] \<and>
   released load_planar_trace = [Packet, CodecContext, FormatContext, Frame] \<and>
   released load_planar_trace \<noteq> rev (acquired load_planar_trace)"
  by (simp add: load_env_planar load_planar_trace_def decode_ok_trace_def)

text \<open>
  C4, amended: in every failing run of \<^verbatim>\<open>decode_image\<close> the resources acquired are an
  initial part of container, decoder context, frame, packet; they are released in exactly
  the reverse order, each release being of the most recently acquired resource still held,
  and none is left. In every failing run of \<^verbatim>\<open>load_from_path\<close> nothing is released
  that is not held and nothing is left held; when the failure comes after
  \<^verbatim>\<open>decode_image\<close> has returned a frame, the packet, the decoder context and the container
  have been released in this order and the frame is released last.
\<close>

theorem failing_runs_release_everything:
  "(decode_image E path [] = (None, t) \<longrightarrow>
      prefix (acquired t) [FormatContext, CodecContext, Frame, Packet] \<and>
      released t = rev (acquired t) \<and> lifo [] t = Some []) \<and>
   (load_from_path E path [] = (None, t') \<longrightarrow>
      live [] t' = Some [] \<and>
      (fst (decode_image E path []) \<noteq> None \<longrightarrow>
         acquired t' = [FormatContext, CodecContext, Frame, Packet] \<and>
         released t' = [Packet, CodecContext, FormatContext, Frame]))"
proof (intro conjI impI)
  assume "decode_image E path [] = (None, t)"
  from decode_image_fails [OF this]
  show "prefix (acquired t) [FormatContext, CodecContext, Frame, Packet]"
    and "released t = rev (acquired t)" and "lifo [] t = Some []"
    by simp_all
next
  assume run: "load_from_path E path [] = (None, t')"
  show "live [] t' = Some []"
  proof (cases "fst (decode_image E path [])")
    case None
    with run have "decode_image E path [] = (None, t')"
      by (simp add: load_from_path_decode_fails prod_eq_iff)
    from decode_image_fails [OF this] show ?thesis by simp
  next
    case (Some f)
    from run load_from_path_after_decode [OF Some] show ?thesis
      by (auto simp: decode_ok_trace_def split: option.splits if_splits)
  qed
next
  assume run: "load_from_path E path [] = (None, t')"
    and "fst (decode_image E path []) \<noteq> None"
  then obtain f where "fst (decode_image E path []) = Some f" by auto
  from run load_from_path_after_decode [OF this]
  show "acquired t' = [FormatContext, CodecContext, Frame, Packet]"
    and "released t' = [Packet, CodecContext, FormatContext, Frame]"
    by (auto simp: decode_ok_trace_def split: option.splits if_splits)
qed

theorem failing_runs_release_everything_witness:
  "decode_image env_send_fails ''icon.png'' [] = (None, decode_send_fails_trace) \<and>
   acquired decode_send_fails_trace = [FormatContext, CodecContext, Frame, Packet] \<and>
   released decode_send_fails_trace = [Packet, Frame, CodecContext, FormatContext] \<and>
   lifo [] decode_send_fails_trace = Some [] \<and>
   load_from_path env_planar ''icon.png'' [] = (None, load_planar_trace) \<and>
   fst (decode_image env_planar ''icon.png'' []) \<noteq> None \<and>
   live [] load_planar_trace = Some []"
proof -
  have a: "decode_image env_send_fails ''icon.png'' [] = (None, decode_send_fails_trace)"
    by (rule run_env_send_fails)
  have b: "load_from_path env_planar ''icon.png'' [] = (None, load_planar_trace)"
    by (rule load_env_planar)
  have c: "fst (decode_image env_planar ''icon.png'' []) \<noteq> None"
    by (simp add: run_env_planar)
  have d: "acquired decode_send_fails_trace = [FormatContext, CodecContext, Frame, Packet]"
    by (simp add: decode_send_fails_trace_def)
  from failing_runs_release_everything
         [of env_send_fails "''icon.png''" decode_send_fails_trace]
       failing_runs_release_everything
         [of env_planar "''icon.png''" decode_ok_trace load_planar_trace]
       a b c d
  show ?thesis by simp
qed

subsection \<open>C5: a complete surface or none\<close>

text \<open>
  C5: \<^verbatim>\<open>scrcpy_icon_load\<close> is a total function of the outcomes of the external calls, and
  every invocation ends in one of two ways. It returns \<^verbatim>\<open>NULL\<close>: then no surface was created
  at all, exactly one error message was logged and no resource is left held. Or it returns a
  surface: then the surface is the one SDL built over the first plane of the decoded frame
  with the frame's width, height and line size and the mapped format, its \<^verbatim>\<open>userdata\<close>
  is the frame, no error was logged, and the surface and the frame are the resources held.
\<close>

theorem scrcpy_icon_load_complete_or_absent:
  "case fst (scrcpy_icon_load E []) of
     None \<Rightarrow>
       Surface \<notin> set (acquired (snd (scrcpy_icon_load E []))) \<and>
       length (logged (snd (scrcpy_icon_load E []))) = 1 \<and>
       live [] (snd (scrcpy_icon_load E [])) = Some []
   | Some s \<Rightarrow>
       (\<exists>d. av_pix_fmt_desc_get_ret E (format (decoded E)) = Some d \<and>
            s = \<lparr>pixels = data0 (decoded E), surface_w = width (decoded E),
                  surface_h = height (decoded E), depth = av_get_bits_per_pixel_ret E d,
                  pitch = linesize0 (decoded E),
                  pixel_format = to_sdl_pixel_format (format (decoded E)),
                  userdata = Some (decoded E)\<rparr>) \<and>
       pixel_format s \<noteq> SDL_PIXELFORMAT_UNKNOWN \<and>
       logged (snd (scrcpy_icon_load E [])) = [] \<and>
       live [] (snd (scrcpy_icon_load E [])) = Some [Surface, Frame]"
proof (cases "fst (scrcpy_icon_load E [])")
  case None
  then have "scrcpy_icon_load E [] = (None, snd (scrcpy_icon_load E []))"
    by (simp add: prod_eq_iff)
  from scrcpy_icon_load_None [OF this] None show ?thesis by simp
next
  case (Some s)
  then have run: "scrcpy_icon_load E [] = (Some s, snd (scrcpy_icon_load E []))"
    by (simp add: prod_eq_iff)
  from scrcpy_icon_load_Some [OF run] obtain p t1 d where
    path: "get_icon_path E [] = (Some p, t1)"
    and d: "av_pix_fmt_desc_get_ret E (format (decoded E)) = Some d"
    and u: "to_sdl_pixel_format (format (decoded E)) \<noteq> SDL_PIXELFORMAT_UNKNOWN"
    and s: "s = \<lparr>pixels = data0 (decoded E), surface_w = width (decoded E),
                 surface_h = height (decoded E), depth = av_get_bits_per_pixel_ret E d,
                 pitch = linesize0 (decoded E),
                 pixel_format = to_sdl_pixel_format (format (decoded E)),
                 userdata = Some (decoded E)\<rparr>"
    and t: "snd (scrcpy_icon_load E []) = t1 @ load_ok_trace @ [Call Free_libc, Free IconPath]"
    by blast
  have "logged (snd (scrcpy_icon_load E [])) = []"
    using t get_icon_path_Some [OF path]
    by (simp add: logged_append load_ok_trace_def decode_ok_trace_def)
  moreover have "live [] (snd (scrcpy_icon_load E [])) = Some [Surface, Frame]"
    using t get_icon_path_live [OF path]
    by (simp add: live_append live_load_ok_trace)
  ultimately show ?thesis using Some d u s by simp
qed

theorem scrcpy_icon_load_complete_or_absent_witness:
  "scrcpy_icon_load env_ok [] = (Some rgba_surface, icon_load_ok_trace) \<and>
   live [] icon_load_ok_trace = Some [Surface, Frame] \<and>
   scrcpy_icon_load env_planar [] = (None, icon_load_planar_trace) \<and>
   Surface \<notin> set (acquired icon_load_planar_trace) \<and>
   live [] icon_load_planar_trace = Some []"
  using scrcpy_icon_load_complete_or_absent [of env_ok]
    scrcpy_icon_load_complete_or_absent [of env_planar]
  by (simp add: icon_load_env_ok icon_load_env_planar)

subsection \<open>C6: the packet and the frame in decode_image\<close>

text \<open>
  C6: in \<^verbatim>\<open>decode_image\<close>, once the packet has been submitted to the decoder it is
  released exactly once, after the submission, whether the submit step fails, the receive
  step fails or neither does. When the function fails after the frame and the packet were
  both allocated, each of the two is released exactly once in the trace the function
  returns with. When the function returns a frame, the frame is not released.
\<close>

theorem decode_image_packet_released_once:
  assumes "decode_image E path [] = (r, t)"
  shows "(0 < calls Avcodec_send_packet t \<longrightarrow>
            count_list (released t) Packet = 1 \<and>
            count_list (released (dropWhile (\<lambda>e. e \<noteq> Call Avcodec_send_packet) t)) Packet = 1) \<and>
         (r = None \<and> Frame \<in> set (acquired t) \<and> Packet \<in> set (acquired t) \<longrightarrow>
            count_list (released t) Frame = 1 \<and> count_list (released t) Packet = 1) \<and>
         (r \<noteq> None \<longrightarrow> count_list (released t) Packet = 1 \<and> Frame \<notin> set (released t))"
  using assms
  by (simp add: decode_image_def lib_defs Let_def split: if_splits) auto

theorem decode_image_packet_released_once_witness:
  "decode_image env_receive_again ''icon.png'' [] = (None, decode_receive_fails_trace) \<and>
   0 < calls Avcodec_send_packet decode_receive_fails_trace \<and>
   Frame \<in> set (acquired decode_receive_fails_trace) \<and>
   Packet \<in> set (acquired decode_receive_fails_trace) \<and>
   count_list (released decode_receive_fails_trace) Packet = 1 \<and>
   count_list (released decode_receive_fails_trace) Frame = 1"
proof -
  have a: "decode_image env_receive_again ''icon.png'' [] = (None, decode_receive_fails_trace)"
    by (rule run_env_receive_again)
  have b: "0 < calls Avcodec_send_packet decode_receive_fails_trace"
    by (simp add: decode_receive_fails_trace_def)
  have c: "Frame \<in> set (acquired decode_receive_fails_trace)"
    "Packet \<in> set (acquired decode_receive_fails_trace)"
    by (simp_all add: decode_receive_fails_trace_def)
  from decode_image_packet_released_once [OF a] a b c show ?thesis by simp
qed

subsection \<open>C7: scrcpy_icon_destroy\<close>

text \<open>
  C7: applied to a surface that \<^verbatim>\<open>scrcpy_icon_load\<close> returned, \<^verbatim>\<open>scrcpy_icon_destroy\<close>
  returns after releasing the attached frame and then the surface structure; the two were
  held before, nothing is held afterwards, and the whole trace releases each exactly once.
  Applied to a surface whose \<^verbatim>\<open>userdata\<close> is \<^verbatim>\<open>NULL\<close> it stops at the assertion, with nothing
  released; applied to any surface with a frame attached it returns after the two releases.
\<close>

theorem scrcpy_icon_destroy_releases_frame_then_surface:
  "(scrcpy_icon_load E [] = (Some s, t) \<longrightarrow>
      scrcpy_icon_destroy s t = Returned (t @ destroy_trace) \<and>
      live [] t = Some [Surface, Frame] \<and>
      live [] (t @ destroy_trace) = Some [] \<and>
      count_list (released (t @ destroy_trace)) Frame = 1 \<and>
      count_list (released (t @ destroy_trace)) Surface = 1) \<and>
   (userdata s' = None \<longrightarrow> scrcpy_icon_destroy s' t' = Assertion_failed t') \<and>
   (userdata s' \<noteq> None \<longrightarrow> scrcpy_icon_destroy s' t' = Returned (t' @ destroy_trace))"
proof (intro conjI impI)
  assume run: "scrcpy_icon_load E [] = (Some s, t)"
  from scrcpy_icon_load_Some [OF run] obtain p t1 where
    path: "get_icon_path E [] = (Some p, t1)"
    and u: "userdata s = Some (decoded E)"
    and t: "t = t1 @ load_ok_trace @ [Call Free_libc, Free IconPath]"
    by auto
  show "scrcpy_icon_destroy s t = Returned (t @ destroy_trace)"
    using u
    by (simp add: scrcpy_icon_destroy_def av_frame_free_def SDL_FreeSurface_call_def
        destroy_trace_def)
  show l: "live [] t = Some [Surface, Frame]"
    using t get_icon_path_live [OF path] by (simp add: live_append live_load_ok_trace)
  show "live [] (t @ destroy_trace) = Some []"
    using l by (simp add: live_append destroy_trace_def)
  show "count_list (released (t @ destroy_trace)) Frame = 1"
    and "count_list (released (t @ destroy_trace)) Surface = 1"
    using t get_icon_path_Some [OF path]
    by (simp_all add: released_append load_ok_trace_def decode_ok_trace_def destroy_trace_def)
next
  assume "userdata s' = None"
  then show "scrcpy_icon_destroy s' t' = Assertion_failed t'"
    by (simp add: scrcpy_icon_destroy_def)
next
  assume "userdata s' \<noteq> None"
  then show "scrcpy_icon_destroy s' t' = Returned (t' @ destroy_trace)"
    by (auto simp: scrcpy_icon_destroy_def av_frame_free_def SDL_FreeSurface_call_def
        destroy_trace_def)
qed

theorem scrcpy_icon_destroy_releases_frame_then_surface_witness:
  "scrcpy_icon_load env_ok [] = (Some rgba_surface, icon_load_ok_trace) \<and>
   scrcpy_icon_destroy rgba_surface icon_load_ok_trace =
     Returned (icon_load_ok_trace @ destroy_trace) \<and>
   live [] (icon_load_ok_trace @ destroy_trace) = Some [] \<and>
   userdata (rgba_surface\<lparr>userdata := None\<rparr>) = None \<and>
   scrcpy_icon_destroy (rgba_surface\<lparr>userdata := None\<rparr>) icon_load_ok_trace =
     Assertion_failed icon_load_ok_trace"
  using scrcpy_icon_destroy_releases_frame_then_surface
      [of env_ok rgba_surface icon_load_ok_trace "rgba_surface\<lparr>userdata := None\<rparr>"
        icon_load_ok_trace]
  by (simp add: icon_load_env_ok)

subsection \<open>C8: get_icon_path\<close>

text \<open>
  C8: \<^verbatim>\<open>get_icon_path\<close> returns the copy of the environment variable
  \<^verbatim>\<open>SCRCPY_ICON_PATH\<close> when the variable is set, and \<^verbatim>\<open>NULL\<close> when the copy cannot be
  allocated. When the variable is not set, a build without \<^verbatim>\<open>PORTABLE\<close> returns the copy of
  the path under the install prefix (\<^verbatim>\<open>NULL\<close> when it cannot be allocated), and a build with
  \<^verbatim>\<open>PORTABLE\<close> returns what \<^verbatim>\<open>get_local_file_path\<close> gives for \<^verbatim>\<open>icon.png\<close>, the path of that
  file beside the executable or \<^verbatim>\<open>NULL\<close>. The result is \<^verbatim>\<open>NULL\<close> exactly when the copy
  failed or, in the portable case, no local path was found.
\<close>

theorem get_icon_path_priority:
  "fst (get_icon_path E []) =
     (case getenv_ret E ''SCRCPY_ICON_PATH'' of
        Some v \<Rightarrow> if strdup_ok E then Some v else None
      | None \<Rightarrow>
          if \<not> PORTABLE E
          then if strdup_ok E
               then Some (PREFIX E @ ''/share/icons/hicolor/256x256/apps/scrcpy.png'')
               else None
          else get_local_file_path_ret E ''icon.png'') \<and>
   (fst (get_icon_path E []) = None \<longleftrightarrow>
      (if getenv_ret E ''SCRCPY_ICON_PATH'' = None \<and> PORTABLE E
       then get_local_file_path_ret E ''icon.png'' = None
       else \<not> strdup_ok E))"
  by (auto simp: path_defs Let_def split: option.splits)

theorem get_icon_path_priority_witness:
  "fst (get_icon_path env_override []) = Some ''/tmp/i.png'' \<and>
   fst (get_icon_path env_ok []) = Some installed_icon_path \<and>
   fst (get_icon_path env_portable []) = Some ''/opt/scrcpy/icon.png'' \<and>
   fst (get_icon_path env_no_memory []) = None \<and>
   fst (get_icon_path (env_portable\<lparr>get_local_file_path_ret := (\<lambda>_. None)\<rparr>) []) = None"
  using get_icon_path_priority [of env_override] get_icon_path_priority [of env_ok]
    get_icon_path_priority [of env_portable] get_icon_path_priority [of env_no_memory]
    get_icon_path_priority [of "env_portable\<lparr>get_local_file_path_ret := (\<lambda>_. None)\<rparr>"]
  by (simp add: env_defs installed_icon_path_def)

subsection \<open>C9: the frame attached to a returned surface\<close>

text \<open>
  C9: every surface that \<^verbatim>\<open>scrcpy_icon_load\<close> returns has its \<^verbatim>\<open>userdata\<close> set to the
  frame that \<^verbatim>\<open>decode_image\<close> returned for the resolved path; the pixels of the surface are
  the first plane of that frame, the frame is still held, and \<^verbatim>\<open>scrcpy_icon_destroy\<close> on
  that surface does not stop at its assertion.
\<close>

theorem scrcpy_icon_load_attaches_frame:
  assumes "scrcpy_icon_load E [] = (Some s, t)"
  shows "\<exists>p f. fst (get_icon_path E []) = Some p \<and> fst (decode_image E p []) = Some f \<and>
               userdata s = Some f \<and> pixels s = data0 f \<and>
               live [] t = Some [Surface, Frame] \<and>
               scrcpy_icon_destroy s t \<noteq> Assertion_failed t"
proof -
  from scrcpy_icon_load_Some [OF assms] obtain p t1 where
    path: "get_icon_path E [] = (Some p, t1)"
    and f: "fst (decode_image E p []) = Some (decoded E)"
    and u: "userdata s = Some (decoded E)" "pixels s = data0 (decoded E)"
    and t: "t = t1 @ load_ok_trace @ [Call Free_libc, Free IconPath]"
    by auto
  have "live [] t = Some [Surface, Frame]"
    using t get_icon_path_live [OF path] by (simp add: live_append live_load_ok_trace)
  moreover have "scrcpy_icon_destroy s t \<noteq> Assertion_failed t"
    using u
    by (simp add: scrcpy_icon_destroy_def av_frame_free_def SDL_FreeSurface_call_def)
  ultimately show ?thesis using path f u by auto
qed

theorem scrcpy_icon_load_attaches_frame_witness:
  "scrcpy_icon_load env_ok [] = (Some rgba_surface, icon_load_ok_trace) \<and>
   userdata rgba_surface = Some rgba_frame \<and>
   pixels rgba_surface = data0 rgba_frame \<and>
   scrcpy_icon_destroy rgba_surface icon_load_ok_trace \<noteq> Assertion_failed icon_load_ok_trace"
  using scrcpy_icon_load_attaches_frame [OF icon_load_env_ok]
  by (auto simp: icon_load_env_ok rgba_surface_def rgba_frame_def)

subsection \<open>C10: the path string\<close>

text \<open>
  C10: whenever \<^verbatim>\<open>get_icon_path\<close> returns a path, \<^verbatim>\<open>scrcpy_icon_load\<close> runs
  \<^verbatim>\<open>load_from_path\<close> on it, returns its result, surface or \<^verbatim>\<open>NULL\<close>, and frees the path
  string as its last action: the path string is acquired once and released once in the
  invocation.
\<close>

theorem scrcpy_icon_load_frees_path:
  assumes "get_icon_path E [] = (Some p, t1)"
  shows "scrcpy_icon_load E [] =
           (fst (load_from_path E p []),
            t1 @ snd (load_from_path E p []) @ [Call Free_libc, Free IconPath]) \<and>
         count_list (acquired (snd (scrcpy_icon_load E []))) IconPath = 1 \<and>
         count_list (released (snd (scrcpy_icon_load E []))) IconPath = 1 \<and>
         last (snd (scrcpy_icon_load E [])) = Free IconPath"
proof -
  note run = scrcpy_icon_load_path [OF assms]
  have t1: "acquired t1 = [IconPath]" "released t1 = []"
    using get_icon_path_Some [OF assms] by simp_all
  have "IconPath \<notin> set (acquired (snd (load_from_path E p []))) \<and>
        IconPath \<notin> set (released (snd (load_from_path E p [])))"
  proof (cases "fst (load_from_path E p [])")
    case None
    then have "load_from_path E p [] = (None, snd (load_from_path E p []))"
      by (simp add: prod_eq_iff)
    from load_from_path_None [OF this] show ?thesis by simp
  next
    case (Some s)
    then have "load_from_path E p [] = (Some s, snd (load_from_path E p []))"
      by (simp add: prod_eq_iff)
    from load_from_path_Some [OF this] show ?thesis
      by (auto simp: load_ok_trace_def decode_ok_trace_def)
  qed
  then have "count_list (acquired (snd (load_from_path E p []))) IconPath = 0"
    and "count_list (released (snd (load_from_path E p []))) IconPath = 0"
    by (simp_all add: count_list_0_iff)
  with run t1 show ?thesis
    by (simp add: acquired_append released_append)
qed

theorem scrcpy_icon_load_frees_path_witness:
  "get_icon_path env_ok [] = (Some installed_icon_path, installed_path_trace) \<and>
   scrcpy_icon_load env_ok [] = (Some rgba_surface, icon_load_ok_trace) \<and>
   count_list (released icon_load_ok_trace) IconPath = 1 \<and>
   last icon_load_ok_trace = Free IconPath \<and>
   get_icon_path env_planar [] = (Some installed_icon_path, installed_path_trace) \<and>
   scrcpy_icon_load env_planar [] = (None, icon_load_planar_trace) \<and>
   count_list (released icon_load_planar_trace) IconPath = 1 \<and>
   last icon_load_planar_trace = Free IconPath"
  using scrcpy_icon_load_frees_path [OF path_env_ok]
    scrcpy_icon_load_frees_path [OF path_env_planar]
  by (simp add: icon_load_env_ok icon_load_env_planar path_env_ok path_env_planar)

end
